theory Spec2Isabelle
  imports Complex_Main "HOL-Library.Sublist"
begin

section \<open>Data model: cells, frames and the notebook state\<close>

text \<open>
  The notebook \<^verbatim>\<open>Conclusion_Fairness_Evaluation_Across_Models.ipynb\<close> holds every
  metric result as a literal of its code cell. A cell of a pandas frame is one of the
  Python values the code writes: a finite float (modelled by the rational number its
  decimal literal denotes), the float \<^verbatim>\<open>np.nan\<close>, or a \<^verbatim>\<open>str\<close>. Infinite floats
  and negative zero do not occur in the notebook and are not modelled.
\<close>

datatype cell = Num rat | NaN | Str string

datatype py_error = ValueError | KeyError

text \<open>
  A frame has a row index and an ordered list of named columns. The index is either the
  default \<^verbatim>\<open>RangeIndex(n)\<close> or a named list of labels, as \<^verbatim>\<open>set_index\<close> builds it.
\<close>

datatype row_index = RangeIndex nat | Index "string option" "cell list"

record dataframe =
  df_index :: row_index
  df_columns :: "(string \<times> cell list) list"

text \<open>Sequencing of steps that may raise: the first error ends the run.\<close>

definition bindE :: "py_error + 'a \<Rightarrow> ('a \<Rightarrow> py_error + 'b) \<Rightarrow> py_error + 'b" where
  "bindE m f = (case m of Inl e \<Rightarrow> Inl e | Inr x \<Rightarrow> f x)"

fun mapE :: "('a \<Rightarrow> py_error + 'b) \<Rightarrow> 'a list \<Rightarrow> py_error + 'b list" where
  "mapE f [] = Inr []"
| "mapE f (x # xs) = bindE (f x) (\<lambda>y. bindE (mapE f xs) (\<lambda>ys. Inr (y # ys)))"

section \<open>The pandas operations the notebook calls\<close>

text \<open>
  \<^verbatim>\<open>pd.DataFrame(dict)\<close>: the dict literal is the association list of its items in
  insertion order (the keys of both literals in the notebook are distinct). Columns of
  different lengths raise \<^verbatim>\<open>ValueError\<close>; otherwise the frame gets a RangeIndex.
\<close>

definition DataFrame :: "(string \<times> cell list) list \<Rightarrow> py_error + dataframe" where
  "DataFrame d =
     (case d of
        [] \<Rightarrow> Inr \<lparr>df_index = RangeIndex 0, df_columns = []\<rparr>
      | (k, v) # rest \<Rightarrow>
          if list_all (\<lambda>(k', v'). length v' = length v) rest
          then Inr \<lparr>df_index = RangeIndex (length v), df_columns = d\<rparr>
          else Inl ValueError)"

text \<open>
  \<^verbatim>\<open>df.set_index(key)\<close> with the default \<^verbatim>\<open>drop=True\<close>: the column becomes the
  index, named after it, and leaves the columns; an unknown key raises \<^verbatim>\<open>KeyError\<close>.
\<close>

definition set_index :: "string \<Rightarrow> dataframe \<Rightarrow> py_error + dataframe" where
  "set_index key df =
     (case map_of (df_columns df) key of
        None \<Rightarrow> Inl KeyError
      | Some vals \<Rightarrow>
          Inr \<lparr>df_index = Index (Some key) vals,
               df_columns = filter (\<lambda>(k, v). k \<noteq> key) (df_columns df)\<rparr>)"

text \<open>\<^verbatim>\<open>pd.isna\<close> on a scalar of the cell type.\<close>

fun isna :: "cell \<Rightarrow> bool" where
  "isna NaN = True"
| "isna (Num q) = False"
| "isna (Str s) = False"

text \<open>
  \<^verbatim>\<open>df.applymap(f)\<close> calls \<open>f\<close> on every cell, column by column, and returns a new
  frame with the same index and column names; an exception of \<open>f\<close> propagates.
\<close>

definition applymap :: "(cell \<Rightarrow> py_error + cell) \<Rightarrow> dataframe \<Rightarrow> py_error + dataframe" where
  "applymap f df =
     bindE (mapE (\<lambda>(k, v). bindE (mapE f v) (\<lambda>v'. Inr (k, v'))) (df_columns df))
       (\<lambda>cols. Inr \<lparr>df_index = df_index df, df_columns = cols\<rparr>)"

text \<open>
  \<^verbatim>\<open>df.replace(to_replace, value)\<close> with two scalars: a NaN \<open>to_replace\<close> matches the
  cells that are NaN, any other scalar matches the cells equal to it. The index is kept.
\<close>

definition replace_match :: "cell \<Rightarrow> cell \<Rightarrow> bool" where
  "replace_match to_replace c = (if isna to_replace then isna c else c = to_replace)"

definition replace :: "cell \<Rightarrow> cell \<Rightarrow> dataframe \<Rightarrow> dataframe" where
  "replace to_replace val df =
     df\<lparr>df_columns :=
          map (\<lambda>(k, v). (k, map (\<lambda>c. if replace_match to_replace c then val else c) v))
            (df_columns df)\<rparr>"

text \<open>Reading one cell by column name and row position; \<open>None\<close> when there is none.\<close>

definition cell_at :: "dataframe \<Rightarrow> string \<Rightarrow> nat \<Rightarrow> cell option" where
  "cell_at df name i =
     (case map_of (df_columns df) name of
        None \<Rightarrow> None
      | Some v \<Rightarrow> if i < length v then Some (v ! i) else None)"

section \<open>Fixed-point formatting\<close>

text \<open>
  The format specification \<^verbatim>\<open>.4f\<close> of an f-string: the sign, the integer part, a
  point and four digits, the value rounded to the nearest multiple of \<open>10\<^sup>-\<^sup>4\<close>, a tie
  going to the even neighbour. NaN formats as \<^verbatim>\<open>nan\<close>; a \<^verbatim>\<open>str\<close> does not accept the
  format code \<^verbatim>\<open>f\<close> and raises \<^verbatim>\<open>ValueError\<close>.
\<close>

definition digit_char :: "nat \<Rightarrow> char" where
  "digit_char d = ''0123456789'' ! (d mod 10)"

fun str_nat :: "nat \<Rightarrow> string" where
  "str_nat n = (if n < 10 then [digit_char n] else str_nat (n div 10) @ [digit_char n])"

declare str_nat.simps [simp del]

definition round_half_even :: "rat \<Rightarrow> int" where
  "round_half_even q =
     (let f = \<lfloor>q\<rfloor>; r = q - of_int f
      in if r < 1 / 2 then f else if 1 / 2 < r then f + 1 else if even f then f else f + 1)"

definition frac4 :: "nat \<Rightarrow> string" where
  "frac4 m = [digit_char (m div 1000), digit_char (m div 100), digit_char (m div 10), digit_char m]"

definition format_4f :: "rat \<Rightarrow> string" where
  "format_4f q =
     (let n = nat (round_half_even (\<bar>q\<bar> * 10000))
      in (if q < 0 then ''-'' else '''') @ str_nat (n div 10000) @ ''.'' @ frac4 (n mod 10000))"

fun format_spec_4f :: "cell \<Rightarrow> py_error + string" where
  "format_spec_4f (Num q) = Inr (format_4f q)"
| "format_spec_4f NaN = Inr ''nan''"
| "format_spec_4f (Str s) = Inl ValueError"

text \<open>The function given to \<^verbatim>\<open>applymap\<close>: \<^verbatim>\<open>lambda x: "-" if pd.isna(x) else f"{x:.4f}"\<close>.\<close>

definition display_fmt :: "cell \<Rightarrow> py_error + cell" where
  "display_fmt x = (if isna x then Inr (Str ''-'') else bindE (format_spec_4f x) (\<lambda>s. Inr (Str s)))"

section \<open>Objects, references and the notebook's outputs\<close>

text \<open>
  Frames are objects: a Python variable holds a reference, \<^verbatim>\<open>inplace=True\<close> mutates the
  object behind it, and \<^verbatim>\<open>copy\<close>, \<^verbatim>\<open>applymap\<close> and \<^verbatim>\<open>replace\<close> return new objects.
  The store maps references to frames; \<open>next_ref\<close> is the next free reference. Python
  has no dangling reference, so \<open>Unallocated\<close> is an error of the model only: reading a
  reference that was never allocated. An output is the argument of a \<^verbatim>\<open>print\<close> or the
  frame a \<^verbatim>\<open>display\<close> shows, as it is at that moment; the warning pandas writes to
  stderr for \<^verbatim>\<open>applymap\<close> is not an output of the model.
\<close>

type_synonym ref = nat

datatype nb_output = Stdout string | DisplayData dataframe

record nb_state =
  heap :: "ref \<Rightarrow> dataframe option"
  next_ref :: ref
  outputs :: "nb_output list"

datatype run_error = Raised py_error | Unallocated

definition bindR :: "run_error + 'a \<Rightarrow> ('a \<Rightarrow> run_error + 'b) \<Rightarrow> run_error + 'b" where
  "bindR m f = (case m of Inl e \<Rightarrow> Inl e | Inr x \<Rightarrow> f x)"

definition raise_of :: "py_error + 'a \<Rightarrow> run_error + 'a" where
  "raise_of m = (case m of Inl e \<Rightarrow> Inl (Raised e) | Inr x \<Rightarrow> Inr x)"

definition alloc :: "dataframe \<Rightarrow> nb_state \<Rightarrow> ref \<times> nb_state" where
  "alloc df s =
     (next_ref s, s\<lparr>heap := (heap s)(next_ref s \<mapsto> df), next_ref := Suc (next_ref s)\<rparr>)"

definition deref :: "ref \<Rightarrow> nb_state \<Rightarrow> run_error + dataframe" where
  "deref r s = (case heap s r of None \<Rightarrow> Inl Unallocated | Some df \<Rightarrow> Inr df)"

definition new_DataFrame :: "(string \<times> cell list) list \<Rightarrow> nb_state \<Rightarrow> run_error + ref \<times> nb_state" where
  "new_DataFrame d s = bindR (raise_of (DataFrame d)) (\<lambda>df. Inr (alloc df s))"

definition set_index_inplace :: "string \<Rightarrow> ref \<Rightarrow> nb_state \<Rightarrow> run_error + nb_state" where
  "set_index_inplace key r s =
     bindR (deref r s) (\<lambda>df.
     bindR (raise_of (set_index key df)) (\<lambda>df'.
     Inr (s\<lparr>heap := (heap s)(r \<mapsto> df')\<rparr>)))"

definition copy :: "ref \<Rightarrow> nb_state \<Rightarrow> run_error + ref \<times> nb_state" where
  "copy r s = bindR (deref r s) (\<lambda>df. Inr (alloc df s))"

definition applymap_obj ::
  "(cell \<Rightarrow> py_error + cell) \<Rightarrow> ref \<Rightarrow> nb_state \<Rightarrow> run_error + ref \<times> nb_state" where
  "applymap_obj f r s =
     bindR (deref r s) (\<lambda>df.
     bindR (raise_of (applymap f df)) (\<lambda>df'.
     Inr (alloc df' s)))"

definition replace_obj :: "cell \<Rightarrow> cell \<Rightarrow> ref \<Rightarrow> nb_state \<Rightarrow> run_error + ref \<times> nb_state" where
  "replace_obj to_replace val r s = bindR (deref r s) (\<lambda>df. Inr (alloc (replace to_replace val df) s))"

definition print :: "string \<Rightarrow> nb_state \<Rightarrow> nb_state" where
  "print str s = s\<lparr>outputs := outputs s @ [Stdout str]\<rparr>"

definition display :: "ref \<Rightarrow> nb_state \<Rightarrow> run_error + nb_state" where
  "display r s = bindR (deref r s) (\<lambda>df. Inr (s\<lparr>outputs := outputs s @ [DisplayData df]\<rparr>))"

section \<open>The code cell\<close>

text \<open>The dict literal of the MovieLens table, with \<^verbatim>\<open>np.nan\<close> for the missing metrics.\<close>

definition movielens_dict :: "(string \<times> cell list) list" where
  "movielens_dict =
     [(''Metric'',
        [Str ''RMSE'',
         Str ''RMSE (Male)'',
         Str ''RMSE (Female)'',
         Str ''CFD (Gender)'',
         Str ''Consistency'',
         Str ''Stat. Parity (Gender, T=3.5)'',
         Str ''Rawlsian Exposure (Gender, T=3.5)'',
         Str ''Local Individual Fairness'',
         Str ''Calibration Error'',
         Str ''Disparate Impact Ratio'',
         Str ''Demographic Parity'']),
      (''ItemKNN'',
        [Num 0.9738, Num 0.9634, Num 1.0031, Num 0.0798, Num 0.2520, Num 0.0154, Num 0.6690,
         Num 0.9491, Num 0.7588, Num 0.9775, Num 0.0154]),
      (''UserKNN'',
        [Num 1.0126, Num 0.9855, Num 1.0869, Num 0.0798, Num 0.2573, Num 0.0023, Num 0.5691,
         NaN, NaN, NaN, NaN]),
      (''SVD++'',
        [Num 0.9287, Num 0.9139, Num 0.9699, Num 0.0799, Num 0.2580, Num 0.0118, Num 0.5488,
         NaN, NaN, NaN, NaN])]"

text \<open>The lists of the Yelp table; a missing metric is the string \<^verbatim>\<open>"-"\<close> already.\<close>

definition metrics :: "cell list" where
  "metrics =
     [Str ''RMSE'', Str ''RMSE (Female)'', Str ''RMSE (Male)'', Str ''RMSE (Unknown)'',
      Str ''Calibration Error'', Str ''Local Individual Fairness'',
      Str ''Disparate Impact Ratio'', Str ''Demographic Parity'',
      Str ''Counterfactual Difference'', Str ''Consistency Score'',
      Str ''Statistical Parity'', Str ''Rawlsian Min Exposure'']"

definition svdpp :: "cell list" where
  "svdpp =
     [Num 1.0175, Num 1.0122, Num 0.9846, Num 1.0574, Num 0.7381, Num 0.2267, Num 1.0078,
      Num 0.0076, Str ''-'', Str ''-'', Str ''-'', Str ''-'']"

definition itemknn :: "cell list" where
  "itemknn =
     [Num 1.295, Num 1.2768, Num 1.3171, Num 1.3574, Num 0.8946, Num 0.2615, Num 1.0194,
      Num 0.0174, Str ''-'', Str ''-'', Str ''-'', Str ''-'']"

definition userknn :: "cell list" where
  "userknn =
     [Num 1.3022, Num 1.2729, Num 1.2726, Num 1.2959, Num 0.5593, Str ''-'', Num 1.0792,
      Num 0.0549, Num 0.0756, Num 0.297, Num 0.0678, Num 0.7407]"

definition yelp_dict :: "(string \<times> cell list) list" where
  "yelp_dict =
     [(''Metric'', metrics), (''SVD++'', svdpp), (''ItemKNN'', itemknn), (''UserKNN'', userknn)]"

text \<open>
  \<^verbatim>\<open>formatted_table = condensed_transposed.copy().applymap(lambda x: ...)\<close>: the copy is a
  temporary object, the formatted frame another one.
\<close>

definition build_formatted_table :: "ref \<Rightarrow> nb_state \<Rightarrow> run_error + ref \<times> nb_state" where
  "build_formatted_table r s =
     bindR (copy r s) (\<lambda>(tmp, s'). applymap_obj display_fmt tmp s')"

text \<open>The bindings of the three frame variables when the cell has run.\<close>

record nb_vars =
  condensed_transposed :: ref
  formatted_table :: ref
  fairness_yelp :: ref

text \<open>
  \<^verbatim>\<open>condensed_transposed = pd.DataFrame({...})\<close> followed by
  \<^verbatim>\<open>condensed_transposed.set_index('Metric', inplace=True)\<close>.
\<close>

definition build_condensed_transposed :: "nb_state \<Rightarrow> run_error + ref \<times> nb_state" where
  "build_condensed_transposed s0 =
     bindR (new_DataFrame movielens_dict s0) (\<lambda>(ct, s1).
     bindR (set_index_inplace ''Metric'' ct s1) (\<lambda>s2.
     Inr (ct, s2)))"

text \<open>The MovieLens half of the cell, up to the display of the formatted table.\<close>

definition movielens_part :: "nb_state \<Rightarrow> run_error + (ref \<times> ref) \<times> nb_state" where
  "movielens_part s0 =
     bindR (build_condensed_transposed s0) (\<lambda>(ct, s2).
     bindR (build_formatted_table ct s2) (\<lambda>(ft, s3).
     bindR (display ft (print (CHR 0x0A # '' Fairness Table (Movielens):'') s3)) (\<lambda>s4.
     Inr ((ct, ft), s4))))"

text \<open>The Yelp half: the variable \<^verbatim>\<open>fairness_yelp\<close> is rebound to the result of \<^verbatim>\<open>replace\<close>.\<close>

definition yelp_part :: "nb_state \<Rightarrow> run_error + ref \<times> nb_state" where
  "yelp_part s0 =
     bindR (new_DataFrame yelp_dict s0) (\<lambda>(fy, s1).
     bindR (replace_obj NaN (Str ''-'') fy s1) (\<lambda>(fy', s2).
     bindR (display fy' (print (CHR 0x0A # ''Fairness Summary Table Across Models (Yelp):'') s2)) (\<lambda>s3.
     Inr (fy', s3))))"

definition run_cell :: "nb_state \<Rightarrow> run_error + nb_vars \<times> nb_state" where
  "run_cell s0 =
     bindR (movielens_part s0) (\<lambda>((ct, ft), s1).
     bindR (yelp_part s1) (\<lambda>(fy, s2).
     Inr (\<lparr>condensed_transposed = ct, formatted_table = ft, fairness_yelp = fy\<rparr>, s2)))"

definition fresh_kernel :: nb_state where
  "fresh_kernel = \<lparr>heap = (\<lambda>r. None), next_ref = 0, outputs = []\<rparr>"

text \<open>What the finished notebook holds: the frame behind a variable, and its outputs.\<close>

definition final_frame :: "(nb_vars \<Rightarrow> ref) \<Rightarrow> dataframe option" where
  "final_frame var =
     (case run_cell fresh_kernel of Inl e \<Rightarrow> None | Inr (vs, s) \<Rightarrow> heap s (var vs))"

definition notebook_outputs :: "nb_output list option" where
  "notebook_outputs =
     (case run_cell fresh_kernel of Inl e \<Rightarrow> None | Inr (vs, s) \<Rightarrow> Some (outputs s))"

section \<open>Reading the tables\<close>

text \<open>
  The frames the cell is expected to build, named so that the statements below stay
  readable: the numeric MovieLens table once \<^verbatim>\<open>Metric\<close> is its index, the formatted
  table as the notebook's stored output of the first \<^verbatim>\<open>display\<close> shows it, and the Yelp
  table. That the run produces exactly these frames is proved, not assumed.
\<close>

definition indexed_movielens :: dataframe where
  "indexed_movielens =
     \<lparr>df_index = Index (Some ''Metric'') (snd (hd movielens_dict)),
      df_columns = tl movielens_dict\<rparr>"

definition recorded_movielens_columns :: "(string \<times> cell list) list" where
  "recorded_movielens_columns =
     [(''ItemKNN'',
        [Str ''0.9738'', Str ''0.9634'', Str ''1.0031'', Str ''0.0798'', Str ''0.2520'',
         Str ''0.0154'', Str ''0.6690'', Str ''0.9491'', Str ''0.7588'', Str ''0.9775'',
         Str ''0.0154'']),
      (''UserKNN'',
        [Str ''1.0126'', Str ''0.9855'', Str ''1.0869'', Str ''0.0798'', Str ''0.2573'',
         Str ''0.0023'', Str ''0.5691'', Str ''-'', Str ''-'', Str ''-'', Str ''-'']),
      (''SVD++'',
        [Str ''0.9287'', Str ''0.9139'', Str ''0.9699'', Str ''0.0799'', Str ''0.2580'',
         Str ''0.0118'', Str ''0.5488'', Str ''-'', Str ''-'', Str ''-'', Str ''-''])]"

definition recorded_movielens_display :: dataframe where
  "recorded_movielens_display =
     \<lparr>df_index = Index (Some ''Metric'') (snd (hd movielens_dict)),
      df_columns = recorded_movielens_columns\<rparr>"

definition yelp_frame :: dataframe where
  "yelp_frame = \<lparr>df_index = RangeIndex 12, df_columns = yelp_dict\<rparr>"

text \<open>The three models every table has a column for.\<close>

definition models :: "string list" where
  "models = [''ItemKNN'', ''UserKNN'', ''SVD++'']"

text \<open>
  The metric names of a table are its index labels (MovieLens) or, under a RangeIndex,
  its \<^verbatim>\<open>Metric\<close> column (Yelp). \<open>metric_value\<close> reads the cell of a metric and a model.
\<close>

definition metric_labels :: "dataframe \<Rightarrow> cell list" where
  "metric_labels df =
     (case df_index df of
        Index nm labels \<Rightarrow> labels
      | RangeIndex n \<Rightarrow> (case map_of (df_columns df) ''Metric'' of None \<Rightarrow> [] | Some v \<Rightarrow> v))"

fun index_of :: "'a \<Rightarrow> 'a list \<Rightarrow> nat option" where
  "index_of x [] = None"
| "index_of x (y # ys) = (if x = y then Some 0 else map_option Suc (index_of x ys))"

definition metric_value :: "dataframe \<Rightarrow> string \<Rightarrow> string \<Rightarrow> cell option" where
  "metric_value df metric model =
     (case index_of (Str metric) (metric_labels df) of
        None \<Rightarrow> None
      | Some i \<Rightarrow> cell_at df model i)"

text \<open>The tables a run has displayed, in order, and how many there are.\<close>

fun displayed_tables :: "nb_output list \<Rightarrow> dataframe list" where
  "displayed_tables [] = []"
| "displayed_tables (Stdout str # outs) = displayed_tables outs"
| "displayed_tables (DisplayData df # outs) = df # displayed_tables outs"

definition table_count :: "nat option" where
  "table_count = map_option (\<lambda>outs. length (displayed_tables outs)) notebook_outputs"

text \<open>A cell that holds a number, and a frame none of whose cells is NaN.\<close>

fun is_number :: "cell \<Rightarrow> bool" where
  "is_number (Num q) = True"
| "is_number NaN = False"
| "is_number (Str s) = False"

definition no_nan :: "dataframe \<Rightarrow> bool" where
  "no_nan df = list_all (\<lambda>(k, v). list_all (\<lambda>c. \<not> isna c) v) (df_columns df)"

text \<open>
  A string in fixed-point notation with four decimals: an optional minus sign, at least
  one digit, a point, exactly four digits.
\<close>

definition is_digit :: "char \<Rightarrow> bool" where
  "is_digit c = (c \<in> set ''0123456789'')"

definition is_4dp :: "string \<Rightarrow> bool" where
  "is_4dp s =
     (let t = (case s of [] \<Rightarrow> [] | c # r \<Rightarrow> if c = CHR ''-'' then r else s);
          ip = takeWhile is_digit t;
          rest = dropWhile is_digit t
      in ip \<noteq> [] \<and>
         (case rest of
            [] \<Rightarrow> False
          | d # fr \<Rightarrow> d = CHR ''.'' \<and> length fr = 4 \<and> list_all is_digit fr))"

section \<open>The narrative cell\<close>

text \<open>
  Two lines of the notebook's first markdown cell, without the trailing newline: the
  bullet on the Yelp subset under "Dataset differences", and the paragraph on the
  sample size in the discussion.
\<close>

definition yelp_subset_note :: string where
  "yelp_subset_note =
     ''- For **Yelp**, fairness metrics were computed using only a subset of **50 users** due to **computational constraints**. Ideally, this analysis would include at least **500 users** for more robust results.''"

definition sample_size_limitation :: string where
  "sample_size_limitation =
     ''One notable limitation in the Yelp evaluation is the sample size. Fairness metrics were calculated using only 50 users due to computational and time constraints. A larger sample, ideally 500 users or more, would be necessary for stronger statistical confidence and a more representative fairness assessment. This smaller scale likely contributes to higher variability in some metrics and limits the ability to generalize results.''"

section \<open>What the outputs show\<close>

text \<open>
  The output of the code cell, as a reader sees it: its text (the printed strings, the
  names of index and columns, the labels and the string cells of the displayed frames)
  and its numbers (the numeric cells and the positions a RangeIndex shows).
  \<open>report_mentions\<close> looks for a piece of text in the output of the run,
  \<open>report_has_number\<close> for a number, \<open>printed\<close> keeps the printed strings.
\<close>

fun cell_text :: "cell \<Rightarrow> string list" where
  "cell_text (Str s) = [s]"
| "cell_text (Num q) = []"
| "cell_text NaN = [''NaN'']"

fun cell_numbers :: "cell \<Rightarrow> rat list" where
  "cell_numbers (Num q) = [q]"
| "cell_numbers NaN = []"
| "cell_numbers (Str s) = []"

definition index_text :: "row_index \<Rightarrow> string list" where
  "index_text ix =
     (case ix of
        RangeIndex n \<Rightarrow> []
      | Index nm labels \<Rightarrow>
          (case nm of None \<Rightarrow> [] | Some name \<Rightarrow> [name]) @ concat (map cell_text labels))"

definition index_numbers :: "row_index \<Rightarrow> rat list" where
  "index_numbers ix =
     (case ix of
        RangeIndex n \<Rightarrow> map of_nat [0..<n]
      | Index nm labels \<Rightarrow> concat (map cell_numbers labels))"

definition frame_text :: "dataframe \<Rightarrow> string list" where
  "frame_text df =
     index_text (df_index df) @
     concat (map (\<lambda>(k, v). k # concat (map cell_text v)) (df_columns df))"

definition frame_numbers :: "dataframe \<Rightarrow> rat list" where
  "frame_numbers df =
     index_numbers (df_index df) @
     concat (map (\<lambda>(k, v). concat (map cell_numbers v)) (df_columns df))"

fun output_text :: "nb_output \<Rightarrow> string list" where
  "output_text (Stdout str) = [str]"
| "output_text (DisplayData df) = frame_text df"

fun output_numbers :: "nb_output \<Rightarrow> rat list" where
  "output_numbers (Stdout str) = []"
| "output_numbers (DisplayData df) = frame_numbers df"

fun printed :: "nb_output list \<Rightarrow> string list" where
  "printed [] = []"
| "printed (Stdout str # outs) = str # printed outs"
| "printed (DisplayData df # outs) = printed outs"

definition report_mentions :: "string \<Rightarrow> bool" where
  "report_mentions pat =
     (case notebook_outputs of
        None \<Rightarrow> False
      | Some outs \<Rightarrow> list_ex (sublist pat) (concat (map output_text outs)))"

definition report_has_number :: "rat \<Rightarrow> bool" where
  "report_has_number q =
     (case notebook_outputs of
        None \<Rightarrow> False
      | Some outs \<Rightarrow> q \<in> set (concat (map output_numbers outs)))"

section \<open>Metrics whose code is outside the notebook\<close>

text \<open>
  Modelled from the spec: the function that computes the Disparate Impact Ratio lives in
  the model notebooks, which are not among the sources; only its results are, as
  literals of the tables above. Spec 4.5: the ratio of the smallest to the largest
  group rate of positive recommendations, "not applicable" when the group in the
  denominator role has rate zero. The argument lists one rate per group; with no group
  at all the metric is "not applicable" as well.
\<close>

definition disparate_impact_ratio :: "rat list \<Rightarrow> rat option" where
  "disparate_impact_ratio rates =
     (if rates = [] \<or> Max (set rates) = 0 then None
      else Some (Min (set rates) / Max (set rates)))"

text \<open>
  Modelled from the spec: RMSE is computed in the model notebooks, which are not among
  the sources. Spec 3 and 4.3: an Interaction Record is (user_id, item_id, true_rating,
  predicted_rating); RMSE is the square root of the mean squared difference over the
  full set and fails with \<^verbatim>\<open>EmptyInputError\<close> on an empty set.
\<close>

record interaction =
  user_id :: nat
  item_id :: nat
  true_rating :: real
  predicted_rating :: real

datatype metric_error = EmptyInputError

text \<open>Modelled from the spec: the squared difference of one record and the mean of a list.\<close>

definition squared_error :: "interaction \<Rightarrow> real" where
  "squared_error r = (true_rating r - predicted_rating r)\<^sup>2"

definition mean :: "real list \<Rightarrow> real" where
  "mean xs = sum_list xs / real (length xs)"

text \<open>
  Modelled from the spec: \<^verbatim>\<open>RMSE(records) = sqrt(mean((true-predicted)^2))\<close> over the
  full set, \<^verbatim>\<open>EmptyInputError\<close> if \<^verbatim>\<open>records\<close> is empty.
\<close>

definition RMSE :: "interaction list \<Rightarrow> metric_error + real" where
  "RMSE records =
     (if records = [] then Inl EmptyInputError
      else Inr (sqrt (mean (map squared_error records))))"

section \<open>Evaluating the cell\<close>

lemma DataFrame_movielens:
  "DataFrame movielens_dict = Inr \<lparr>df_index = RangeIndex 11, df_columns = movielens_dict\<rparr>"
  by (simp add: DataFrame_def movielens_dict_def)

lemma set_index_movielens:
  "set_index ''Metric'' \<lparr>df_index = RangeIndex 11, df_columns = movielens_dict\<rparr>
     = Inr indexed_movielens"
  by (simp add: set_index_def movielens_dict_def indexed_movielens_def)

lemma display_fmt_Num: "display_fmt (Num q) = Inr (Str (format_4f q))"
  by (simp add: display_fmt_def bindE_def)

lemma display_fmt_NaN: "display_fmt NaN = Inr (Str ''-'')"
  by (simp add: display_fmt_def)

lemma display_fmt_Str: "display_fmt (Str s) = Inl ValueError"
  by (simp add: display_fmt_def bindE_def)

lemma applymap_movielens: "applymap display_fmt indexed_movielens = Inr recorded_movielens_display"
  by (simp add: applymap_def movielens_dict_def bindE_def display_fmt_Num display_fmt_NaN
      indexed_movielens_def recorded_movielens_display_def recorded_movielens_columns_def
      format_4f_def round_half_even_def frac4_def digit_char_def str_nat.simps Let_def)

lemma DataFrame_yelp: "DataFrame yelp_dict = Inr yelp_frame"
  by (simp add: DataFrame_def yelp_dict_def metrics_def svdpp_def itemknn_def userknn_def
      yelp_frame_def)

lemma replace_yelp: "replace NaN (Str ''-'') yelp_frame = yelp_frame"
  by (simp add: replace_def replace_match_def yelp_dict_def metrics_def svdpp_def itemknn_def
      userknn_def yelp_frame_def)

lemma build_condensed_transposed_fresh:
  "build_condensed_transposed fresh_kernel =
     Inr (0, \<lparr>heap = [0 \<mapsto> indexed_movielens], next_ref = Suc 0, outputs = []\<rparr>)"
  by (simp add: build_condensed_transposed_def new_DataFrame_def set_index_inplace_def bindR_def
      raise_of_def alloc_def deref_def fresh_kernel_def DataFrame_movielens set_index_movielens)

lemma build_formatted_table_fresh:
  "build_formatted_table 0 \<lparr>heap = [0 \<mapsto> indexed_movielens], next_ref = Suc 0, outputs = []\<rparr> =
     Inr (Suc (Suc 0),
          \<lparr>heap = [0 \<mapsto> indexed_movielens, Suc 0 \<mapsto> indexed_movielens,
                   Suc (Suc 0) \<mapsto> recorded_movielens_display],
           next_ref = Suc (Suc (Suc 0)), outputs = []\<rparr>)"
  by (simp add: build_formatted_table_def copy_def applymap_obj_def bindR_def raise_of_def
      alloc_def deref_def applymap_movielens)

lemma movielens_part_fresh:
  "movielens_part fresh_kernel =
     Inr ((0, Suc (Suc 0)),
          \<lparr>heap = [0 \<mapsto> indexed_movielens, Suc 0 \<mapsto> indexed_movielens,
                   Suc (Suc 0) \<mapsto> recorded_movielens_display],
           next_ref = Suc (Suc (Suc 0)),
           outputs = [Stdout (CHR 0x0A # '' Fairness Table (Movielens):''),
                      DisplayData recorded_movielens_display]\<rparr>)"
  by (simp add: movielens_part_def build_condensed_transposed_fresh build_formatted_table_fresh
      bindR_def display_def print_def deref_def)

lemma yelp_part_after:
  "yelp_part \<lparr>heap = h, next_ref = Suc (Suc (Suc 0)), outputs = out\<rparr> =
     Inr (Suc (Suc (Suc (Suc 0))),
          \<lparr>heap = h(Suc (Suc (Suc 0)) \<mapsto> yelp_frame, Suc (Suc (Suc (Suc 0))) \<mapsto> yelp_frame),
           next_ref = Suc (Suc (Suc (Suc (Suc 0)))),
           outputs = out @ [Stdout (CHR 0x0A # ''Fairness Summary Table Across Models (Yelp):''),
                            DisplayData yelp_frame]\<rparr>)"
  by (simp add: yelp_part_def new_DataFrame_def replace_obj_def bindR_def raise_of_def alloc_def
      deref_def display_def print_def DataFrame_yelp replace_yelp)

lemma run_cell_fresh:
  "run_cell fresh_kernel =
     Inr (\<lparr>condensed_transposed = 0, formatted_table = Suc (Suc 0),
           fairness_yelp = Suc (Suc (Suc (Suc 0)))\<rparr>,
          \<lparr>heap = [0 \<mapsto> indexed_movielens, Suc 0 \<mapsto> indexed_movielens,
                   Suc (Suc 0) \<mapsto> recorded_movielens_display,
                   Suc (Suc (Suc 0)) \<mapsto> yelp_frame, Suc (Suc (Suc (Suc 0))) \<mapsto> yelp_frame],
           next_ref = Suc (Suc (Suc (Suc (Suc 0)))),
           outputs = [Stdout (CHR 0x0A # '' Fairness Table (Movielens):''),
                      DisplayData recorded_movielens_display,
                      Stdout (CHR 0x0A # ''Fairness Summary Table Across Models (Yelp):''),
                      DisplayData yelp_frame]\<rparr>)"
  by (simp add: run_cell_def movielens_part_fresh yelp_part_after bindR_def)

lemma final_condensed_transposed: "final_frame condensed_transposed = Some indexed_movielens"
  by (simp add: final_frame_def run_cell_fresh)

lemma final_formatted_table: "final_frame formatted_table = Some recorded_movielens_display"
  by (simp add: final_frame_def run_cell_fresh)

lemma final_fairness_yelp: "final_frame fairness_yelp = Some yelp_frame"
  by (simp add: final_frame_def run_cell_fresh)

lemma notebook_outputs_eq:
  "notebook_outputs =
     Some [Stdout (CHR 0x0A # '' Fairness Table (Movielens):''),
           DisplayData recorded_movielens_display,
           Stdout (CHR 0x0A # ''Fairness Summary Table Across Models (Yelp):''),
           DisplayData yelp_frame]"
  by (simp add: notebook_outputs_def run_cell_fresh)

section \<open>General facts about the operations\<close>

lemma bindE_Inr: "bindE m f = Inr y \<longleftrightarrow> (\<exists>x. m = Inr x \<and> f x = Inr y)"
  by (cases m) (simp_all add: bindE_def)

lemma mapE_length: "mapE f xs = Inr ys \<Longrightarrow> length ys = length xs"
  by (induction xs arbitrary: ys) (auto simp: bindE_Inr)

lemma mapE_nth: "mapE f xs = Inr ys \<Longrightarrow> i < length xs \<Longrightarrow> f (xs ! i) = Inr (ys ! i)"
proof (induction xs arbitrary: ys i)
  case Nil
  then show ?case by simp
next
  case (Cons x xs)
  from Cons.prems(1) obtain y ys' where y: "f x = Inr y" and ys': "mapE f xs = Inr ys'" and ys: "ys = y # ys'"
    by (auto simp: bindE_Inr)
  show ?case
  proof (cases i)
    case 0
    with y ys show ?thesis by simp
  next
    case (Suc j)
    with Cons.prems(2) have "j < length xs" by simp
    from Cons.IH [OF ys' this] Suc ys show ?thesis by simp
  qed
qed

lemma mapE_columns_names:
  "mapE (\<lambda>(k, v). bindE (mapE f v) (\<lambda>v'. Inr (k, v'))) cols = Inr cols' \<Longrightarrow>
     map fst cols' = map fst cols"
  by (induction cols arbitrary: cols') (auto simp: bindE_Inr)

lemma mapE_columns_lengths:
  "mapE (\<lambda>(k, v). bindE (mapE f v) (\<lambda>v'. Inr (k, v'))) cols = Inr cols' \<Longrightarrow>
     map (\<lambda>(k, v). length v) cols' = map (\<lambda>(k, v). length v) cols"
  by (induction cols arbitrary: cols') (auto simp: bindE_Inr dest: mapE_length)

lemma mapE_columns_Some:
  "mapE (\<lambda>(k, v). bindE (mapE f v) (\<lambda>v'. Inr (k, v'))) cols = Inr cols' \<Longrightarrow>
     map_of cols name = Some v \<Longrightarrow> \<exists>v'. mapE f v = Inr v' \<and> map_of cols' name = Some v'"
  by (induction cols arbitrary: cols') (auto simp: bindE_Inr split: if_splits)

lemma mapE_columns_None:
  "mapE (\<lambda>(k, v). bindE (mapE f v) (\<lambda>v'. Inr (k, v'))) cols = Inr cols' \<Longrightarrow>
     map_of cols name = None \<Longrightarrow> map_of cols' name = None"
  by (induction cols arbitrary: cols') (auto simp: bindE_Inr split: if_splits)

lemma applymap_Inr:
  "applymap f df = Inr df' \<longleftrightarrow>
     (\<exists>cols. mapE (\<lambda>(k, v). bindE (mapE f v) (\<lambda>v'. Inr (k, v'))) (df_columns df) = Inr cols \<and>
        df' = \<lparr>df_index = df_index df, df_columns = cols\<rparr>)"
  by (auto simp: applymap_def bindE_Inr)

lemma applymap_index: "applymap f df = Inr df' \<Longrightarrow> df_index df' = df_index df"
  by (auto simp: applymap_Inr)

lemma applymap_names:
  "applymap f df = Inr df' \<Longrightarrow> map fst (df_columns df') = map fst (df_columns df)"
  by (auto simp: applymap_Inr dest: mapE_columns_names)

lemma applymap_lengths:
  "applymap f df = Inr df' \<Longrightarrow>
     map (\<lambda>(k, v). length v) (df_columns df') = map (\<lambda>(k, v). length v) (df_columns df)"
  by (auto simp: applymap_Inr dest: mapE_columns_lengths)

lemma applymap_cell:
  assumes "applymap f df = Inr df'" and "cell_at df name i = Some c"
  shows "\<exists>c'. f c = Inr c' \<and> cell_at df' name i = Some c'"
proof -
  from assms(1) obtain cols where
    cols: "mapE (\<lambda>(k, v). bindE (mapE f v) (\<lambda>v'. Inr (k, v'))) (df_columns df) = Inr cols"
    and df': "df' = \<lparr>df_index = df_index df, df_columns = cols\<rparr>"
    by (auto simp: applymap_Inr)
  from assms(2) obtain v where v: "map_of (df_columns df) name = Some v" and i: "i < length v"
    and c: "c = v ! i"
    by (auto simp: cell_at_def split: option.splits if_splits)
  from mapE_columns_Some [OF cols v] obtain v' where v': "mapE f v = Inr v'"
    and m: "map_of cols name = Some v'"
    by blast
  from mapE_length [OF v'] i have "i < length v'" by simp
  moreover from mapE_nth [OF v' i] c have "f c = Inr (v' ! i)" by simp
  ultimately show ?thesis using m df' by (simp add: cell_at_def)
qed

lemma applymap_cell_None:
  assumes "applymap f df = Inr df'" and "cell_at df name i = None"
  shows "cell_at df' name i = None"
proof -
  from assms(1) obtain cols where
    cols: "mapE (\<lambda>(k, v). bindE (mapE f v) (\<lambda>v'. Inr (k, v'))) (df_columns df) = Inr cols"
    and df': "df' = \<lparr>df_index = df_index df, df_columns = cols\<rparr>"
    by (auto simp: applymap_Inr)
  show ?thesis
  proof (cases "map_of (df_columns df) name")
    case None
    from mapE_columns_None [OF cols None] df' show ?thesis by (simp add: cell_at_def)
  next
    case (Some v)
    from mapE_columns_Some [OF cols Some] obtain v' where v': "mapE f v = Inr v'"
      and m: "map_of cols name = Some v'"
      by blast
    from assms(2) Some have "\<not> i < length v" by (simp add: cell_at_def split: if_splits)
    with mapE_length [OF v'] m df' show ?thesis by (simp add: cell_at_def)
  qed
qed

lemma is_digit_digit_char: "is_digit (digit_char d)"
  unfolding is_digit_def digit_char_def by (rule nth_mem) simp

lemma str_nat_digits: "list_all is_digit (str_nat n)"
  by (induction n rule: str_nat.induct) (subst str_nat.simps, simp add: is_digit_digit_char)

lemma str_nat_nonempty: "str_nat n \<noteq> []"
  by (subst str_nat.simps) simp

lemma frac4_digits: "list_all is_digit (frac4 m)" and frac4_length: "length (frac4 m) = 4"
  by (simp_all add: frac4_def is_digit_digit_char)

lemma not_digit_point: "\<not> is_digit CHR ''.''" and not_digit_minus: "\<not> is_digit CHR ''-''"
  by (simp_all add: is_digit_def)

lemma is_4dp_unsigned:
  "list_all is_digit ds \<Longrightarrow> ds \<noteq> [] \<Longrightarrow> list_all is_digit fr \<Longrightarrow> length fr = 4 \<Longrightarrow>
     is_4dp (ds @ CHR ''.'' # fr)"
proof -
  assume ds: "list_all is_digit ds" and ne: "ds \<noteq> []" and fr: "list_all is_digit fr" "length fr = 4"
  from ne obtain d ds' where dd: "ds = d # ds'" by (cases ds) auto
  with ds have "d \<noteq> CHR ''-''" using not_digit_minus by auto
  moreover from ds have "takeWhile is_digit (ds @ CHR ''.'' # fr) = ds"
    by (simp add: list_all_iff not_digit_point)
  moreover from ds have "dropWhile is_digit (ds @ CHR ''.'' # fr) = CHR ''.'' # fr"
    by (simp add: list_all_iff not_digit_point)
  ultimately show ?thesis using ne fr dd
    by (simp add: is_4dp_def Let_def)
qed

lemma is_4dp_signed:
  "list_all is_digit ds \<Longrightarrow> ds \<noteq> [] \<Longrightarrow> list_all is_digit fr \<Longrightarrow> length fr = 4 \<Longrightarrow>
     is_4dp (CHR ''-'' # ds @ CHR ''.'' # fr)"
proof -
  assume ds: "list_all is_digit ds" and ne: "ds \<noteq> []" and fr: "list_all is_digit fr" "length fr = 4"
  from ds have "takeWhile is_digit (ds @ CHR ''.'' # fr) = ds"
    by (simp add: list_all_iff not_digit_point)
  moreover from ds have "dropWhile is_digit (ds @ CHR ''.'' # fr) = CHR ''.'' # fr"
    by (simp add: list_all_iff not_digit_point)
  ultimately show ?thesis using ne fr
    by (simp add: is_4dp_def Let_def)
qed

lemma is_4dp_format_4f: "is_4dp (format_4f q)"
  by (simp add: format_4f_def Let_def is_4dp_unsigned is_4dp_signed str_nat_digits
      str_nat_nonempty frac4_digits frac4_length)

lemma not_4dp_dash: "\<not> is_4dp ''-''"
  by (simp add: is_4dp_def)

lemma format_4f_not_dash: "format_4f q \<noteq> ''-''"
  using is_4dp_format_4f [of q] not_4dp_dash by auto

lemma display_fmt_dash_iff: "display_fmt x = Inr (Str ''-'') \<longleftrightarrow> x = NaN"
  by (cases x) (simp_all add: display_fmt_Num display_fmt_NaN display_fmt_Str format_4f_not_dash)

lemma replace_cell:
  "cell_at (replace a b df) name i =
     map_option (\<lambda>c. if replace_match a c then b else c) (cell_at df name i)"
  by (simp add: cell_at_def replace_def map_of_map split: option.splits)

lemma replace_index: "df_index (replace a b df) = df_index df"
  by (simp add: replace_def)

lemma replace_names: "map fst (df_columns (replace a b df)) = map fst (df_columns df)"
  by (simp add: replace_def case_prod_unfold comp_def)

lemma cell_UserKNN_7: "cell_at indexed_movielens ''UserKNN'' 7 = Some NaN"
  by (simp add: cell_at_def indexed_movielens_def movielens_dict_def)

lemma bindR_Inr: "bindR m f = Inr y \<longleftrightarrow> (\<exists>x. m = Inr x \<and> f x = Inr y)"
  by (cases m) (simp_all add: bindR_def)

lemma alloc_frame:
  "alloc df s = (r', s') \<Longrightarrow> x < next_ref s \<Longrightarrow>
     heap s' x = heap s x \<and> r' \<noteq> x \<and> x < next_ref s' \<and> outputs s' = outputs s"
  by (auto simp: alloc_def)

lemma copy_frame:
  "copy r s = Inr (r', s') \<Longrightarrow> x < next_ref s \<Longrightarrow>
     heap s' x = heap s x \<and> r' \<noteq> x \<and> x < next_ref s' \<and> outputs s' = outputs s"
  by (auto simp: copy_def bindR_Inr dest: alloc_frame)

lemma applymap_obj_frame:
  "applymap_obj f r s = Inr (r', s') \<Longrightarrow> x < next_ref s \<Longrightarrow>
     heap s' x = heap s x \<and> r' \<noteq> x \<and> x < next_ref s' \<and> outputs s' = outputs s"
  by (auto simp: applymap_obj_def bindR_Inr dest: alloc_frame)

lemma build_formatted_table_frame:
  assumes "build_formatted_table r s = Inr (ft, s')" and "x < next_ref s"
  shows "heap s' x = heap s x \<and> ft \<noteq> x \<and> outputs s' = outputs s"
proof -
  from assms(1) obtain tmp s1 where c: "copy r s = Inr (tmp, s1)"
    and a: "applymap_obj display_fmt tmp s1 = Inr (ft, s')"
    by (auto simp: build_formatted_table_def bindR_Inr)
  from copy_frame [OF c assms(2)] have 1: "heap s1 x = heap s x" "x < next_ref s1"
    "outputs s1 = outputs s"
    by simp_all
  from applymap_obj_frame [OF a 1(2)] 1 show ?thesis by simp
qed

lemma replace_no_nan:
  assumes "no_nan df"
  shows "replace NaN v df = df"
proof -
  have col: "map (\<lambda>c. if replace_match NaN c then v else c) w = w" if "list_all (\<lambda>c. \<not> isna c) w" for w
    using that by (induction w) (simp_all add: replace_match_def)
  have "map (\<lambda>(k, w). (k, map (\<lambda>c. if replace_match NaN c then v else c) w)) cols = cols"
    if "list_all (\<lambda>(k, w). list_all (\<lambda>c. \<not> isna c) w) cols" for cols :: "(string \<times> cell list) list"
    using that by (induction cols) (auto simp: col)
  with assms show ?thesis by (cases df) (simp add: replace_def no_nan_def)
qed

lemma cell_at_list_all:
  assumes "list_all (\<lambda>(k, v). list_all (P k) v) (df_columns df)" and "cell_at df name i = Some c"
  shows "P name c"
proof -
  from assms(2) obtain v where v: "map_of (df_columns df) name = Some v" and i: "i < length v"
    and c: "c = v ! i"
    by (auto simp: cell_at_def split: option.splits if_splits)
  from map_of_SomeD [OF v] assms(1) have "list_all (P name) v"
    by (auto simp: list_all_iff)
  with i c show ?thesis by (simp add: list_all_length)
qed

lemma no_nan_yelp: "no_nan yelp_frame"
  by (simp add: no_nan_def yelp_frame_def yelp_dict_def metrics_def svdpp_def itemknn_def userknn_def)

lemma yelp_model_cells:
  "list_all (\<lambda>(k, v). list_all (\<lambda>c. k \<in> set models \<longrightarrow> is_number c \<or> c = Str ''-'') v)
     (df_columns yelp_frame)"
  by (simp add: yelp_frame_def yelp_dict_def metrics_def svdpp_def itemknn_def userknn_def models_def)

lemma displayed_tables_notebook:
  "map_option displayed_tables notebook_outputs = Some [recorded_movielens_display, yelp_frame]"
  by (simp add: notebook_outputs_eq)

lemma metric_labels_movielens:
  "metric_labels recorded_movielens_display = snd (hd movielens_dict)"
  "metric_labels indexed_movielens = snd (hd movielens_dict)"
  by (simp_all add: metric_labels_def recorded_movielens_display_def indexed_movielens_def)

lemma metric_labels_yelp: "metric_labels yelp_frame = metrics"
  by (simp add: metric_labels_def yelp_frame_def yelp_dict_def)

lemma metric_value_at:
  "index_of (Str metric) (metric_labels df) = Some i \<Longrightarrow> metric_value df metric model = cell_at df model i"
  by (simp add: metric_value_def)

lemma metric_value_absent:
  "index_of (Str metric) (metric_labels df) = None \<Longrightarrow> metric_value df metric model = None"
  by (simp add: metric_value_def)

lemma movielens_label_positions:
  "index_of (Str ''Stat. Parity (Gender, T=3.5)'') (metric_labels recorded_movielens_display) = Some 5"
  "index_of (Str ''Demographic Parity'') (metric_labels recorded_movielens_display) = Some 10"
  "index_of (Str ''Local Individual Fairness'') (metric_labels recorded_movielens_display) = Some 7"
  "index_of (Str ''Disparate Impact Ratio'') (metric_labels recorded_movielens_display) = Some 9"
  "index_of (Str ''Disparate Impact Ratio'') (metric_labels indexed_movielens) = Some 9"
  "index_of (Str ''RMSE (Unknown)'') (metric_labels recorded_movielens_display) = None"
  by (simp_all add: metric_labels_movielens movielens_dict_def)

lemma yelp_label_positions:
  "index_of (Str ''RMSE (Unknown)'') (metric_labels yelp_frame) = Some 3"
  "index_of (Str ''Disparate Impact Ratio'') (metric_labels yelp_frame) = Some 6"
  "index_of (Str ''Demographic Parity'') (metric_labels yelp_frame) = Some 7"
  "index_of (Str ''Consistency Score'') (metric_labels yelp_frame) = Some 9"
  "index_of (Str ''Statistical Parity'') (metric_labels yelp_frame) = Some 10"
  by (simp_all add: metric_labels_yelp metrics_def)

lemma cell_at_movielens_display:
  "cell_at recorded_movielens_display ''ItemKNN'' i =
     (if i < 11 then Some (snd (recorded_movielens_columns ! 0) ! i) else None)"
  "cell_at recorded_movielens_display ''UserKNN'' i =
     (if i < 11 then Some (snd (recorded_movielens_columns ! 1) ! i) else None)"
  "cell_at recorded_movielens_display ''SVD++'' i =
     (if i < 11 then Some (snd (recorded_movielens_columns ! 2) ! i) else None)"
  by (simp_all add: cell_at_def recorded_movielens_display_def recorded_movielens_columns_def)

lemma cell_at_yelp:
  "cell_at yelp_frame ''SVD++'' i = (if i < 12 then Some (svdpp ! i) else None)"
  "cell_at yelp_frame ''ItemKNN'' i = (if i < 12 then Some (itemknn ! i) else None)"
  "cell_at yelp_frame ''UserKNN'' i = (if i < 12 then Some (userknn ! i) else None)"
  by (simp_all add: cell_at_def yelp_frame_def yelp_dict_def svdpp_def itemknn_def userknn_def)

lemma movielens_model_columns:
  assumes "model \<in> set models"
  shows "\<exists>v. map_of (df_columns indexed_movielens) model = Some v \<and> length v = 11 \<and>
           list_all (\<lambda>c. is_number c \<or> c = NaN) v"
  using assms by (auto simp: models_def indexed_movielens_def movielens_dict_def)

lemma yelp_model_columns:
  assumes "model \<in> set models"
  shows "\<exists>v. map_of (df_columns yelp_frame) model = Some v \<and> length v = 12 \<and>
           list_all (\<lambda>c. is_number c \<or> c = Str ''-'') v"
  using assms
  by (auto simp: models_def yelp_frame_def yelp_dict_def svdpp_def itemknn_def userknn_def)

lemma display_fmt_number:
  "is_number c \<Longrightarrow> \<exists>s. display_fmt c = Inr (Str s) \<and> is_4dp s"
  by (cases c) (simp_all add: display_fmt_Num is_4dp_format_4f)

lemma dir_cell_yelp:
  assumes "cell_at yelp_frame model 6 = Some (Num q)"
  shows "1 < q \<and> q \<le> 1.0792"
  using assms
  by (auto simp: cell_at_def yelp_frame_def yelp_dict_def metrics_def svdpp_def itemknn_def
      userknn_def split: if_splits)

lemma dir_cell_movielens:
  assumes "cell_at indexed_movielens model 9 = Some (Num q)"
  shows "0 < q \<and> q \<le> 1"
  using assms
  by (auto simp: cell_at_def indexed_movielens_def movielens_dict_def split: if_splits)

lemma dir_cell_movielens_ItemKNN: "cell_at indexed_movielens ''ItemKNN'' 9 = Some (Num 0.9775)"
  by (simp add: cell_at_def indexed_movielens_def movielens_dict_def)

lemma disparate_impact_ratio_bounds:
  assumes "\<forall>r\<in>set rates. 0 \<le> r" and "disparate_impact_ratio rates = Some d"
  shows "0 \<le> d \<and> d \<le> 1"
proof -
  from assms(2) have ne: "rates \<noteq> []" and mx: "Max (set rates) \<noteq> 0"
    and d: "d = Min (set rates) / Max (set rates)"
    by (auto simp: disparate_impact_ratio_def split: if_splits)
  from ne have fin: "finite (set rates)" "set rates \<noteq> {}" by simp_all
  from fin have mem: "Max (set rates) \<in> set rates" "Min (set rates) \<in> set rates"
    by simp_all
  with assms(1) mx have pos: "0 < Max (set rates)" and nn: "0 \<le> Min (set rates)"
    by (auto simp: less_le)
  from fin mem have le: "Min (set rates) \<le> Max (set rates)"
    by simp
  from pos nn le show ?thesis by (simp add: d divide_le_eq)
qed

lemma frame_text_movielens:
  "frame_text recorded_movielens_display =
     [''Metric'', ''RMSE'', ''RMSE (Male)'', ''RMSE (Female)'', ''CFD (Gender)'', ''Consistency'',
      ''Stat. Parity (Gender, T=3.5)'', ''Rawlsian Exposure (Gender, T=3.5)'',
      ''Local Individual Fairness'', ''Calibration Error'', ''Disparate Impact Ratio'',
      ''Demographic Parity'',
      ''ItemKNN'', ''0.9738'', ''0.9634'', ''1.0031'', ''0.0798'', ''0.2520'', ''0.0154'',
      ''0.6690'', ''0.9491'', ''0.7588'', ''0.9775'', ''0.0154'',
      ''UserKNN'', ''1.0126'', ''0.9855'', ''1.0869'', ''0.0798'', ''0.2573'', ''0.0023'',
      ''0.5691'', ''-'', ''-'', ''-'', ''-'',
      ''SVD++'', ''0.9287'', ''0.9139'', ''0.9699'', ''0.0799'', ''0.2580'', ''0.0118'',
      ''0.5488'', ''-'', ''-'', ''-'', ''-'']"
  by (simp add: frame_text_def index_text_def recorded_movielens_display_def
      recorded_movielens_columns_def movielens_dict_def)

lemma frame_numbers_movielens: "frame_numbers recorded_movielens_display = []"
  by (simp add: frame_numbers_def index_numbers_def recorded_movielens_display_def
      recorded_movielens_columns_def movielens_dict_def)

lemma frame_text_yelp:
  "frame_text yelp_frame =
     [''Metric'', ''RMSE'', ''RMSE (Female)'', ''RMSE (Male)'', ''RMSE (Unknown)'',
      ''Calibration Error'', ''Local Individual Fairness'', ''Disparate Impact Ratio'',
      ''Demographic Parity'', ''Counterfactual Difference'', ''Consistency Score'',
      ''Statistical Parity'', ''Rawlsian Min Exposure'',
      ''SVD++'', ''-'', ''-'', ''-'', ''-'',
      ''ItemKNN'', ''-'', ''-'', ''-'', ''-'',
      ''UserKNN'', ''-'']"
  by (simp add: frame_text_def index_text_def yelp_frame_def yelp_dict_def metrics_def svdpp_def
      itemknn_def userknn_def)

lemma frame_numbers_yelp:
  "frame_numbers yelp_frame =
     [0, 1, 2, 3, 4, 5, 6, 7, 8, 9, 10, 11,
      1.0175, 1.0122, 0.9846, 1.0574, 0.7381, 0.2267, 1.0078, 0.0076,
      1.295, 1.2768, 1.3171, 1.3574, 0.8946, 0.2615, 1.0194, 0.0174,
      1.3022, 1.2729, 1.2726, 1.2959, 0.5593, 1.0792, 0.0549, 0.0756, 0.297, 0.0678, 0.7407]"
  by (simp add: frame_numbers_def index_numbers_def yelp_frame_def yelp_dict_def metrics_def
      svdpp_def itemknn_def userknn_def upt_rec)

lemma report_mentions_eq:
  "report_mentions pat =
     list_ex (sublist pat)
       ((CHR 0x0A # '' Fairness Table (Movielens):'') # frame_text recorded_movielens_display @
        (CHR 0x0A # ''Fairness Summary Table Across Models (Yelp):'') # frame_text yelp_frame)"
  by (simp add: report_mentions_def notebook_outputs_eq)

lemma report_has_number_eq:
  "report_has_number q = (q \<in> set (frame_numbers recorded_movielens_display @ frame_numbers yelp_frame))"
  by (simp add: report_has_number_def notebook_outputs_eq)

lemma report_without_50: "\<not> report_mentions ''50''"
  by (simp add: report_mentions_eq frame_text_movielens frame_text_yelp sublist_code(3))

lemma report_without_users: "\<not> report_mentions ''users''"
  by (simp add: report_mentions_eq frame_text_movielens frame_text_yelp sublist_code(3))

lemma report_without_sample: "\<not> report_mentions ''ample''"
  by (simp add: report_mentions_eq frame_text_movielens frame_text_yelp sublist_code(3))

lemma report_without_number_50: "\<not> report_has_number 50"
  by (simp add: report_has_number_eq frame_numbers_movielens frame_numbers_yelp)

lemma printed_notebook:
  "map_option printed notebook_outputs =
     Some [CHR 0x0A # '' Fairness Table (Movielens):'',
           CHR 0x0A # ''Fairness Summary Table Across Models (Yelp):'']"
  by (simp add: notebook_outputs_eq)

section \<open>The claims\<close>

text \<open>
  Claim C1. Every cell of the numeric MovieLens table that holds the "not applicable"
  sentinel \<^verbatim>\<open>np.nan\<close> is shown as the string \<^verbatim>\<open>"-"\<close> in the formatted table: it is not
  the number 0, not the rendering \<^verbatim>\<open>0.0000\<close> of 0, and the cell is still there, the
  formatted table having the index, the column names and the column lengths of the
  numeric one. Both frames exist when the cell has run. The \<^verbatim>\<open>replace(np.nan, "-")\<close> of
  the Yelp half does the same to a NaN cell of any frame and keeps its index and columns.
\<close>

theorem na_rendered_as_dash:
  "final_frame condensed_transposed \<noteq> None \<and> final_frame formatted_table \<noteq> None \<and>
   (final_frame condensed_transposed = Some raw \<and> final_frame formatted_table = Some shown \<and>
    cell_at raw model i = Some NaN \<longrightarrow>
      cell_at shown model i = Some (Str ''-'') \<and>
      cell_at shown model i \<noteq> Some (Num 0) \<and>
      cell_at shown model i \<noteq> Some (Str (format_4f 0)) \<and>
      df_index shown = df_index raw \<and>
      map fst (df_columns shown) = map fst (df_columns raw) \<and>
      map (\<lambda>(k, v). length v) (df_columns shown) = map (\<lambda>(k, v). length v) (df_columns raw)) \<and>
   (cell_at df model i = Some NaN \<longrightarrow>
      cell_at (replace NaN (Str ''-'') df) model i = Some (Str ''-'') \<and>
      df_index (replace NaN (Str ''-'') df) = df_index df \<and>
      map fst (df_columns (replace NaN (Str ''-'') df)) = map fst (df_columns df))"
proof (intro conjI impI)
  show "final_frame condensed_transposed \<noteq> None"
    by (simp add: final_condensed_transposed)
  show "final_frame formatted_table \<noteq> None"
    by (simp add: final_formatted_table)
next
  assume a: "final_frame condensed_transposed = Some raw \<and> final_frame formatted_table = Some shown \<and>
    cell_at raw model i = Some NaN"
  then have raw: "raw = indexed_movielens" and shown: "shown = recorded_movielens_display"
    by (simp_all add: final_condensed_transposed final_formatted_table)
  then have ap: "applymap display_fmt raw = Inr shown"
    by (simp add: applymap_movielens)
  from applymap_cell [OF ap] a show dash: "cell_at shown model i = Some (Str ''-'')"
    by (fastforce simp: display_fmt_NaN)
  from dash show "cell_at shown model i \<noteq> Some (Num 0)" by simp
  from dash show "cell_at shown model i \<noteq> Some (Str (format_4f 0))"
    using format_4f_not_dash [of 0] by auto
  from ap show "df_index shown = df_index raw" by (rule applymap_index)
  from ap show "map fst (df_columns shown) = map fst (df_columns raw)" by (rule applymap_names)
  from ap show "map (\<lambda>(k, v). length v) (df_columns shown) = map (\<lambda>(k, v). length v) (df_columns raw)"
    by (rule applymap_lengths)
next
  assume "cell_at df model i = Some NaN"
  then show "cell_at (replace NaN (Str ''-'') df) model i = Some (Str ''-'')"
    by (simp add: replace_cell replace_match_def)
next
  show "df_index (replace NaN (Str ''-'') df) = df_index df" by (rule replace_index)
  show "map fst (df_columns (replace NaN (Str ''-'') df)) = map fst (df_columns df)"
    by (rule replace_names)
qed

theorem na_rendered_as_dash_witness:
  "final_frame condensed_transposed = Some indexed_movielens \<and>
   final_frame formatted_table = Some recorded_movielens_display \<and>
   cell_at indexed_movielens ''UserKNN'' 7 = Some NaN \<and>
   cell_at recorded_movielens_display ''UserKNN'' 7 = Some (Str ''-'') \<and>
   df_index recorded_movielens_display = df_index indexed_movielens \<and>
   cell_at (replace NaN (Str ''-'') indexed_movielens) ''UserKNN'' 7 = Some (Str ''-'')"
proof -
  have h: "final_frame condensed_transposed = Some indexed_movielens \<and>
      final_frame formatted_table = Some recorded_movielens_display \<and>
      cell_at indexed_movielens ''UserKNN'' 7 = Some NaN"
    by (simp add: final_condensed_transposed final_formatted_table cell_UserKNN_7)
  with na_rendered_as_dash [of indexed_movielens recorded_movielens_display "''UserKNN''" 7
      indexed_movielens]
  show ?thesis by blast
qed

text \<open>
  Claim C2, as amended. The ratio of the smallest to the largest group rate, as the spec
  defines the Disparate Impact Ratio, lies in [0,1] whenever it is defined. The values
  the tables report under that name are positive but not all of that kind: the
  MovieLens value (ItemKNN, 0.9775) is at most 1, the three Yelp values (1.0078, 1.0194,
  1.0792) are greater than 1 and at most 1.0792.
\<close>

theorem dir_values_in_tables:
  "((\<forall>r\<in>set rates. 0 \<le> r) \<and> disparate_impact_ratio rates = Some d \<longrightarrow> 0 \<le> d \<and> d \<le> 1) \<and>
   final_frame condensed_transposed = Some indexed_movielens \<and>
   final_frame fairness_yelp = Some yelp_frame \<and>
   (metric_value indexed_movielens ''Disparate Impact Ratio'' model = Some (Num q) \<longrightarrow>
      0 < q \<and> q \<le> 1) \<and>
   (metric_value yelp_frame ''Disparate Impact Ratio'' model = Some (Num q) \<longrightarrow>
      1 < q \<and> q \<le> 1.0792) \<and>
   metric_value indexed_movielens ''Disparate Impact Ratio'' ''ItemKNN'' = Some (Num 0.9775) \<and>
   metric_value yelp_frame ''Disparate Impact Ratio'' ''SVD++'' = Some (Num 1.0078) \<and>
   metric_value yelp_frame ''Disparate Impact Ratio'' ''ItemKNN'' = Some (Num 1.0194) \<and>
   metric_value yelp_frame ''Disparate Impact Ratio'' ''UserKNN'' = Some (Num 1.0792)"
proof (intro conjI)
  show "(\<forall>r\<in>set rates. 0 \<le> r) \<and> disparate_impact_ratio rates = Some d \<longrightarrow> 0 \<le> d \<and> d \<le> 1"
    using disparate_impact_ratio_bounds by blast
  show "final_frame condensed_transposed = Some indexed_movielens"
    by (rule final_condensed_transposed)
  show "final_frame fairness_yelp = Some yelp_frame"
    by (rule final_fairness_yelp)
  show "metric_value indexed_movielens ''Disparate Impact Ratio'' model = Some (Num q) \<longrightarrow>
      0 < q \<and> q \<le> 1"
    using dir_cell_movielens by (simp add: metric_value_at [OF movielens_label_positions(5)])
  show "metric_value yelp_frame ''Disparate Impact Ratio'' model = Some (Num q) \<longrightarrow>
      1 < q \<and> q \<le> 1.0792"
    using dir_cell_yelp by (simp add: metric_value_at [OF yelp_label_positions(2)])
  show "metric_value indexed_movielens ''Disparate Impact Ratio'' ''ItemKNN'' = Some (Num 0.9775)"
    by (simp add: metric_value_at [OF movielens_label_positions(5)] dir_cell_movielens_ItemKNN)
  show "metric_value yelp_frame ''Disparate Impact Ratio'' ''SVD++'' = Some (Num 1.0078)"
    by (simp add: metric_value_at [OF yelp_label_positions(2)] cell_at_yelp svdpp_def)
  show "metric_value yelp_frame ''Disparate Impact Ratio'' ''ItemKNN'' = Some (Num 1.0194)"
    by (simp add: metric_value_at [OF yelp_label_positions(2)] cell_at_yelp itemknn_def)
  show "metric_value yelp_frame ''Disparate Impact Ratio'' ''UserKNN'' = Some (Num 1.0792)"
    by (simp add: metric_value_at [OF yelp_label_positions(2)] cell_at_yelp userknn_def)
qed

theorem dir_values_in_tables_witness:
  "(0::rat) \<le> 0.5 \<and> (0::rat) \<le> 0.8 \<and> disparate_impact_ratio [0.5, 0.8] = Some 0.625 \<and>
   (0::rat) \<le> 0.625 \<and> (0.625::rat) \<le> 1 \<and>
   metric_value indexed_movielens ''Disparate Impact Ratio'' ''ItemKNN'' = Some (Num 0.9775) \<and>
   (0::rat) < 0.9775 \<and> (0.9775::rat) \<le> 1 \<and>
   metric_value yelp_frame ''Disparate Impact Ratio'' ''UserKNN'' = Some (Num 1.0792) \<and>
   (1::rat) < 1.0792"
proof -
  have r: "(\<forall>r\<in>set [0.5, 0.8::rat]. 0 \<le> r) \<and> disparate_impact_ratio [0.5, 0.8] = Some 0.625"
    by (simp add: disparate_impact_ratio_def)
  note t1 = dir_values_in_tables [of "[0.5, 0.8]" "0.625" "''ItemKNN''" "0.9775"]
  note t2 = dir_values_in_tables [of "[0.5, 0.8]" "0.625" "''UserKNN''" "1.0792"]
  from t1 r have a: "(0::rat) \<le> 0.625 \<and> (0.625::rat) \<le> 1" by blast
  from t1 have b: "metric_value indexed_movielens ''Disparate Impact Ratio'' ''ItemKNN'' = Some (Num 0.9775)"
    by blast
  with t1 have b': "(0::rat) < 0.9775 \<and> (0.9775::rat) \<le> 1" by blast
  from t2 have c: "metric_value yelp_frame ''Disparate Impact Ratio'' ''UserKNN'' = Some (Num 1.0792)"
    by blast
  with t2 have c': "(1::rat) < 1.0792" by blast
  have "(0::rat) \<le> 0.5 \<and> (0::rat) \<le> 0.8" by simp
  with r a b b' c c' show ?thesis by blast
qed

text \<open>
  Claim C2 as stated bounds every Disparate Impact Ratio of the tables by 1; the Yelp
  table reports 1.0078 for SVD++.
\<close>

theorem dir_exceeds_one_counterexample:
  "final_frame fairness_yelp = Some yelp_frame \<and>
   metric_value yelp_frame ''Disparate Impact Ratio'' ''SVD++'' = Some (Num 1.0078) \<and>
   \<not> (1.0078::rat) \<le> 1"
  by (simp add: final_fairness_yelp metric_value_at [OF yelp_label_positions(2)] cell_at_yelp
      svdpp_def)

text \<open>
  Claim C3, as amended. The cell does not assemble one table for all pairs of model and
  dataset: it displays two, the MovieLens table and then the Yelp table, each under its
  own printed heading and each with one row per metric and one column per model (the
  Yelp table with the metric names as a column). A metric of one dataset only, such as
  "RMSE (Unknown)", is found in the Yelp table and not in the MovieLens table.
\<close>

theorem one_table_per_dataset:
  "notebook_outputs =
     Some [Stdout (CHR 0x0A # '' Fairness Table (Movielens):''),
           DisplayData recorded_movielens_display,
           Stdout (CHR 0x0A # ''Fairness Summary Table Across Models (Yelp):''),
           DisplayData yelp_frame] \<and>
   final_frame formatted_table = Some recorded_movielens_display \<and>
   final_frame fairness_yelp = Some yelp_frame \<and>
   table_count = Some 2 \<and>
   map fst (df_columns recorded_movielens_display) = [''ItemKNN'', ''UserKNN'', ''SVD++''] \<and>
   map fst (df_columns yelp_frame) = [''Metric'', ''SVD++'', ''ItemKNN'', ''UserKNN''] \<and>
   length (metric_labels recorded_movielens_display) = 11 \<and>
   map (\<lambda>(k, v). length v) (df_columns recorded_movielens_display) = [11, 11, 11] \<and>
   length (metric_labels yelp_frame) = 12 \<and>
   map (\<lambda>(k, v). length v) (df_columns yelp_frame) = [12, 12, 12, 12] \<and>
   metric_value recorded_movielens_display ''RMSE (Unknown)'' ''SVD++'' = None \<and>
   metric_value yelp_frame ''RMSE (Unknown)'' ''SVD++'' = Some (Num 1.0574)"
proof (intro conjI)
  show "notebook_outputs =
     Some [Stdout (CHR 0x0A # '' Fairness Table (Movielens):''),
           DisplayData recorded_movielens_display,
           Stdout (CHR 0x0A # ''Fairness Summary Table Across Models (Yelp):''),
           DisplayData yelp_frame]"
    by (rule notebook_outputs_eq)
  show "final_frame formatted_table = Some recorded_movielens_display"
    by (rule final_formatted_table)
  show "final_frame fairness_yelp = Some yelp_frame"
    by (rule final_fairness_yelp)
  show "table_count = Some 2"
    by (simp add: table_count_def notebook_outputs_eq)
  show "map fst (df_columns recorded_movielens_display) = [''ItemKNN'', ''UserKNN'', ''SVD++'']"
    by (simp add: recorded_movielens_display_def recorded_movielens_columns_def)
  show "map fst (df_columns yelp_frame) = [''Metric'', ''SVD++'', ''ItemKNN'', ''UserKNN'']"
    by (simp add: yelp_frame_def yelp_dict_def)
  show "length (metric_labels recorded_movielens_display) = 11"
    by (simp add: metric_labels_movielens movielens_dict_def)
  show "map (\<lambda>(k, v). length v) (df_columns recorded_movielens_display) = [11, 11, 11]"
    by (simp add: recorded_movielens_display_def recorded_movielens_columns_def)
  show "length (metric_labels yelp_frame) = 12"
    by (simp add: metric_labels_yelp metrics_def)
  show "map (\<lambda>(k, v). length v) (df_columns yelp_frame) = [12, 12, 12, 12]"
    by (simp add: yelp_frame_def yelp_dict_def metrics_def svdpp_def itemknn_def userknn_def)
  show "metric_value recorded_movielens_display ''RMSE (Unknown)'' ''SVD++'' = None"
    by (simp add: metric_value_absent [OF movielens_label_positions(6)])
  show "metric_value yelp_frame ''RMSE (Unknown)'' ''SVD++'' = Some (Num 1.0574)"
    by (simp add: metric_value_at [OF yelp_label_positions(1)] cell_at_yelp svdpp_def)
qed

text \<open>
  Claim C3 as stated asks for a single displayed table; the notebook displays two.
\<close>

theorem single_table_counterexample: "table_count = Some 2 \<and> table_count \<noteq> Some 1"
  by (simp add: table_count_def notebook_outputs_eq)

text \<open>
  Claim C4. The tables keep partial coverage. In the MovieLens table every row and every
  model column of the numeric table is in the formatted table, and a cell is a
  four-decimal number where the metric has a number for the model and \<^verbatim>\<open>"-"\<close> where it
  has NaN. In the Yelp table every cell of a model column is the number or the
  \<^verbatim>\<open>"-"\<close> the lists of the code give, and all twelve rows and three model columns are
  there. Rows with partial coverage are kept whole: "Local Individual Fairness" has a
  number for ItemKNN only (MovieLens), "Consistency Score" for UserKNN only (Yelp).
\<close>

theorem partial_coverage_kept:
  "(final_frame condensed_transposed = Some raw \<and> final_frame formatted_table = Some shown \<and>
    model \<in> set models \<and> i < 11 \<longrightarrow>
      (\<exists>c s. cell_at raw model i = Some c \<and> cell_at shown model i = Some (Str s) \<and>
         (is_number c \<and> is_4dp s \<or> c = NaN \<and> s = ''-'')) \<and>
      metric_labels shown = metric_labels raw \<and>
      length (metric_labels shown) = 11 \<and>
      map fst (df_columns shown) = models) \<and>
   (final_frame fairness_yelp = Some yelp \<and> DataFrame yelp_dict = Inr built \<and>
    model \<in> set models \<and> j < 12 \<longrightarrow>
      (\<exists>c. cell_at built model j = Some c \<and> cell_at yelp model j = Some c \<and>
         (is_number c \<or> c = Str ''-'')) \<and>
      metric_labels yelp = metric_labels built \<and>
      length (metric_labels yelp) = 12 \<and>
      map fst (df_columns yelp) = ''Metric'' # ''SVD++'' # ''ItemKNN'' # ''UserKNN'' # []) \<and>
   metric_value recorded_movielens_display ''Local Individual Fairness'' ''ItemKNN'' = Some (Str ''0.9491'') \<and>
   metric_value recorded_movielens_display ''Local Individual Fairness'' ''UserKNN'' = Some (Str ''-'') \<and>
   metric_value recorded_movielens_display ''Local Individual Fairness'' ''SVD++'' = Some (Str ''-'') \<and>
   metric_value yelp_frame ''Consistency Score'' ''UserKNN'' = Some (Num 0.297) \<and>
   metric_value yelp_frame ''Consistency Score'' ''ItemKNN'' = Some (Str ''-'') \<and>
   metric_value yelp_frame ''Consistency Score'' ''SVD++'' = Some (Str ''-'')"
proof (intro conjI)
  show "final_frame condensed_transposed = Some raw \<and> final_frame formatted_table = Some shown \<and>
    model \<in> set models \<and> i < 11 \<longrightarrow>
      (\<exists>c s. cell_at raw model i = Some c \<and> cell_at shown model i = Some (Str s) \<and>
         (is_number c \<and> is_4dp s \<or> c = NaN \<and> s = ''-'')) \<and>
      metric_labels shown = metric_labels raw \<and>
      length (metric_labels shown) = 11 \<and>
      map fst (df_columns shown) = models"
  proof (intro impI)
    assume a: "final_frame condensed_transposed = Some raw \<and>
      final_frame formatted_table = Some shown \<and> model \<in> set models \<and> i < 11"
    then have raw: "raw = indexed_movielens" and shown: "shown = recorded_movielens_display"
      by (simp_all add: final_condensed_transposed final_formatted_table)
    from a movielens_model_columns obtain v where
      v: "map_of (df_columns indexed_movielens) model = Some v" "length v = 11"
        "list_all (\<lambda>c. is_number c \<or> c = NaN) v"
      by blast
    from v a have c: "cell_at raw model i = Some (v ! i)"
      by (simp add: cell_at_def raw)
    from v a have kind: "is_number (v ! i) \<or> v ! i = NaN"
      by (simp add: list_all_length)
    have "applymap display_fmt raw = Inr shown"
      by (simp add: raw shown applymap_movielens)
    from applymap_cell [OF this c] obtain c' where c': "display_fmt (v ! i) = Inr c'"
      and sh: "cell_at shown model i = Some c'"
      by blast
    from kind have "\<exists>s. c' = Str s \<and> (is_number (v ! i) \<and> is_4dp s \<or> v ! i = NaN \<and> s = ''-'')"
    proof
      assume n: "is_number (v ! i)"
      from display_fmt_number [OF n] c' n show ?thesis by auto
    next
      assume "v ! i = NaN"
      with c' show ?thesis by (simp add: display_fmt_NaN)
    qed
    with c sh have 1: "\<exists>c s. cell_at raw model i = Some c \<and> cell_at shown model i = Some (Str s) \<and>
         (is_number c \<and> is_4dp s \<or> c = NaN \<and> s = ''-'')"
      by blast
    have 2: "metric_labels shown = metric_labels raw"
      by (simp add: raw shown metric_labels_movielens)
    have 3: "length (metric_labels shown) = 11"
      by (simp add: shown metric_labels_movielens movielens_dict_def)
    have 4: "map fst (df_columns shown) = models"
      by (simp add: shown recorded_movielens_display_def recorded_movielens_columns_def models_def)
    from 1 2 3 4 show "(\<exists>c s. cell_at raw model i = Some c \<and> cell_at shown model i = Some (Str s) \<and>
         (is_number c \<and> is_4dp s \<or> c = NaN \<and> s = ''-'')) \<and>
      metric_labels shown = metric_labels raw \<and>
      length (metric_labels shown) = 11 \<and>
      map fst (df_columns shown) = models"
      by blast
  qed
next
  show "final_frame fairness_yelp = Some yelp \<and> DataFrame yelp_dict = Inr built \<and>
    model \<in> set models \<and> j < 12 \<longrightarrow>
      (\<exists>c. cell_at built model j = Some c \<and> cell_at yelp model j = Some c \<and>
         (is_number c \<or> c = Str ''-'')) \<and>
      metric_labels yelp = metric_labels built \<and>
      length (metric_labels yelp) = 12 \<and>
      map fst (df_columns yelp) = ''Metric'' # ''SVD++'' # ''ItemKNN'' # ''UserKNN'' # []"
  proof (intro impI)
    assume a: "final_frame fairness_yelp = Some yelp \<and> DataFrame yelp_dict = Inr built \<and>
      model \<in> set models \<and> j < 12"
    then have y: "yelp = yelp_frame" and b: "built = yelp_frame"
      by (simp_all add: final_fairness_yelp DataFrame_yelp)
    from a yelp_model_columns obtain v where
      v: "map_of (df_columns yelp_frame) model = Some v" "length v = 12"
        "list_all (\<lambda>c. is_number c \<or> c = Str ''-'') v"
      by blast
    from v a have c: "cell_at yelp_frame model j = Some (v ! j)"
      by (simp add: cell_at_def)
    from v a have kind: "is_number (v ! j) \<or> v ! j = Str ''-''"
      by (simp add: list_all_length)
    have 3: "length (metric_labels yelp_frame) = 12"
      by (simp add: metric_labels_yelp metrics_def)
    have 4: "map fst (df_columns yelp_frame) = ''Metric'' # ''SVD++'' # ''ItemKNN'' # ''UserKNN'' # []"
      by (simp add: yelp_frame_def yelp_dict_def)
    from c kind 3 4 show "(\<exists>c. cell_at built model j = Some c \<and> cell_at yelp model j = Some c \<and>
         (is_number c \<or> c = Str ''-'')) \<and>
      metric_labels yelp = metric_labels built \<and>
      length (metric_labels yelp) = 12 \<and>
      map fst (df_columns yelp) = ''Metric'' # ''SVD++'' # ''ItemKNN'' # ''UserKNN'' # []"
      unfolding y b by blast
  qed
next
  show "metric_value recorded_movielens_display ''Local Individual Fairness'' ''ItemKNN'' = Some (Str ''0.9491'')"
    by (simp add: metric_value_at [OF movielens_label_positions(3)] cell_at_movielens_display
        recorded_movielens_columns_def)
  show "metric_value recorded_movielens_display ''Local Individual Fairness'' ''UserKNN'' = Some (Str ''-'')"
    by (simp add: metric_value_at [OF movielens_label_positions(3)] cell_at_movielens_display
        recorded_movielens_columns_def)
  show "metric_value recorded_movielens_display ''Local Individual Fairness'' ''SVD++'' = Some (Str ''-'')"
    by (simp add: metric_value_at [OF movielens_label_positions(3)] cell_at_movielens_display
        recorded_movielens_columns_def)
  show "metric_value yelp_frame ''Consistency Score'' ''UserKNN'' = Some (Num 0.297)"
    by (simp add: metric_value_at [OF yelp_label_positions(4)] cell_at_yelp userknn_def)
  show "metric_value yelp_frame ''Consistency Score'' ''ItemKNN'' = Some (Str ''-'')"
    by (simp add: metric_value_at [OF yelp_label_positions(4)] cell_at_yelp itemknn_def)
  show "metric_value yelp_frame ''Consistency Score'' ''SVD++'' = Some (Str ''-'')"
    by (simp add: metric_value_at [OF yelp_label_positions(4)] cell_at_yelp svdpp_def)
qed

theorem partial_coverage_kept_witness:
  "final_frame condensed_transposed = Some indexed_movielens \<and>
   final_frame formatted_table = Some recorded_movielens_display \<and>
   ''UserKNN'' \<in> set models \<and> (8::nat) < 11 \<and>
   cell_at indexed_movielens ''UserKNN'' 8 = Some NaN \<and>
   cell_at recorded_movielens_display ''UserKNN'' 8 = Some (Str ''-'') \<and>
   final_frame fairness_yelp = Some yelp_frame \<and> DataFrame yelp_dict = Inr yelp_frame \<and>
   (5::nat) < 12 \<and>
   cell_at yelp_frame ''UserKNN'' 5 = Some (Str ''-'') \<and>
   length (metric_labels yelp_frame) = 12"
proof -
  have h: "final_frame condensed_transposed = Some indexed_movielens \<and>
      final_frame formatted_table = Some recorded_movielens_display \<and>
      ''UserKNN'' \<in> set models \<and> (8::nat) < 11"
    "final_frame fairness_yelp = Some yelp_frame \<and> DataFrame yelp_dict = Inr yelp_frame \<and>
      ''UserKNN'' \<in> set models \<and> (5::nat) < 12"
    by (simp_all add: final_condensed_transposed final_formatted_table final_fairness_yelp
        DataFrame_yelp models_def)
  have c: "cell_at indexed_movielens ''UserKNN'' 8 = Some NaN"
    by (simp add: cell_at_def indexed_movielens_def movielens_dict_def)
  have c2: "cell_at yelp_frame ''UserKNN'' 5 = Some (Str ''-'')"
    by (simp add: cell_at_yelp userknn_def)
  note t = partial_coverage_kept [of indexed_movielens recorded_movielens_display "''UserKNN''" 8
      yelp_frame yelp_frame 5]
  from t h c have "cell_at recorded_movielens_display ''UserKNN'' 8 = Some (Str ''-'')"
    by auto
  moreover from t h have "length (metric_labels yelp_frame) = 12"
    by blast
  ultimately show ?thesis using h c c2 by simp
qed

text \<open>
  Claim C5. Demographic Parity and Statistical Parity are two rows of each displayed
  table, under different names and at different positions: rows 5 and 10 of the
  MovieLens table, where ItemKNN has the same value 0.0154 in both, and rows 10 and 7 of
  the Yelp table. No metric name occurs twice in either table.
\<close>

theorem parity_metrics_reported_separately:
  "map_option displayed_tables notebook_outputs = Some [recorded_movielens_display, yelp_frame] \<and>
   index_of (Str ''Stat. Parity (Gender, T=3.5)'') (metric_labels recorded_movielens_display) = Some 5 \<and>
   index_of (Str ''Demographic Parity'') (metric_labels recorded_movielens_display) = Some 10 \<and>
   distinct (metric_labels recorded_movielens_display) \<and>
   metric_value recorded_movielens_display ''Stat. Parity (Gender, T=3.5)'' ''ItemKNN'' = Some (Str ''0.0154'') \<and>
   metric_value recorded_movielens_display ''Demographic Parity'' ''ItemKNN'' = Some (Str ''0.0154'') \<and>
   index_of (Str ''Demographic Parity'') (metric_labels yelp_frame) = Some 7 \<and>
   index_of (Str ''Statistical Parity'') (metric_labels yelp_frame) = Some 10 \<and>
   distinct (metric_labels yelp_frame) \<and>
   metric_value yelp_frame ''Demographic Parity'' ''UserKNN'' = Some (Num 0.0549) \<and>
   metric_value yelp_frame ''Statistical Parity'' ''UserKNN'' = Some (Num 0.0678)"
proof (intro conjI)
  show "map_option displayed_tables notebook_outputs = Some [recorded_movielens_display, yelp_frame]"
    by (rule displayed_tables_notebook)
  show "index_of (Str ''Stat. Parity (Gender, T=3.5)'') (metric_labels recorded_movielens_display) = Some 5"
    by (rule movielens_label_positions)
  show "index_of (Str ''Demographic Parity'') (metric_labels recorded_movielens_display) = Some 10"
    by (rule movielens_label_positions)
  show "distinct (metric_labels recorded_movielens_display)"
    by (simp add: metric_labels_movielens movielens_dict_def)
  show "metric_value recorded_movielens_display ''Stat. Parity (Gender, T=3.5)'' ''ItemKNN'' = Some (Str ''0.0154'')"
    by (simp add: metric_value_at [OF movielens_label_positions(1)] metric_value_at [OF movielens_label_positions(2)]
        cell_at_movielens_display recorded_movielens_columns_def)
  show "metric_value recorded_movielens_display ''Demographic Parity'' ''ItemKNN'' = Some (Str ''0.0154'')"
    by (simp add: metric_value_at [OF movielens_label_positions(1)] metric_value_at [OF movielens_label_positions(2)]
        cell_at_movielens_display recorded_movielens_columns_def)
  show "index_of (Str ''Demographic Parity'') (metric_labels yelp_frame) = Some 7"
    by (rule yelp_label_positions)
  show "index_of (Str ''Statistical Parity'') (metric_labels yelp_frame) = Some 10"
    by (rule yelp_label_positions)
  show "distinct (metric_labels yelp_frame)"
    by (simp add: metric_labels_yelp metrics_def)
  show "metric_value yelp_frame ''Demographic Parity'' ''UserKNN'' = Some (Num 0.0549)"
    by (simp add: metric_value_at [OF yelp_label_positions(3)] metric_value_at [OF yelp_label_positions(5)]
        cell_at_yelp userknn_def)
  show "metric_value yelp_frame ''Statistical Parity'' ''UserKNN'' = Some (Num 0.0678)"
    by (simp add: metric_value_at [OF yelp_label_positions(3)] metric_value_at [OF yelp_label_positions(5)]
        cell_at_yelp userknn_def)
qed

text \<open>
  Claim C6. RMSE of the empty record list fails with \<^verbatim>\<open>EmptyInputError\<close> and does not
  return 0; for a non-empty list it returns the square root of the sum of the squared
  differences between true and predicted rating, divided by the number of records.
\<close>

theorem rmse_empty_fails_else_root_mean_square:
  "RMSE [] = Inl EmptyInputError \<and> RMSE [] \<noteq> Inr 0 \<and>
   (records \<noteq> [] \<longrightarrow>
      RMSE records =
        Inr (sqrt ((\<Sum>r\<leftarrow>records. (true_rating r - predicted_rating r)\<^sup>2) / real (length records))))"
proof -
  have "map squared_error records = map (\<lambda>r. (true_rating r - predicted_rating r)\<^sup>2) records"
    by (simp add: squared_error_def)
  then show ?thesis by (simp only: RMSE_def mean_def) simp
qed

theorem rmse_empty_fails_else_root_mean_square_witness:
  "[\<lparr>user_id = 1, item_id = 1, true_rating = 4, predicted_rating = 3.8\<rparr>,
    \<lparr>user_id = 2, item_id = 1, true_rating = 2, predicted_rating = 2.5\<rparr>] \<noteq> [] \<and>
   RMSE [\<lparr>user_id = 1, item_id = 1, true_rating = 4, predicted_rating = 3.8\<rparr>,
         \<lparr>user_id = 2, item_id = 1, true_rating = 2, predicted_rating = 2.5\<rparr>] = Inr (sqrt 0.145)"
  using rmse_empty_fails_else_root_mean_square
    [of "[\<lparr>user_id = 1, item_id = 1, true_rating = 4, predicted_rating = 3.8\<rparr>,
          \<lparr>user_id = 2, item_id = 1, true_rating = 2, predicted_rating = 2.5\<rparr>]"]
  by (simp add: power2_eq_square)

text \<open>
  Claim C7, as amended. The sample behind the Yelp fairness metrics is recorded in the
  notebook's narrative only: the note on the Yelp dataset and the paragraph on the
  sample-size limitation both name the 50 users. The output the code cell produces
  records no sample size: it prints the two headings and displays the two tables, the
  Yelp table under a heading that names Yelp, and neither "50" nor "users" nor "sample"
  occurs in its text, nor is 50 one of its numbers.
\<close>

theorem sample_size_in_narrative_only:
  "sublist ''Yelp'' yelp_subset_note \<and> sublist ''subset of **50 users**'' yelp_subset_note \<and>
   sublist ''sample size'' sample_size_limitation \<and>
   sublist ''using only 50 users'' sample_size_limitation \<and>
   notebook_outputs \<noteq> None \<and>
   map_option printed notebook_outputs =
     Some [CHR 0x0A # '' Fairness Table (Movielens):'',
           CHR 0x0A # ''Fairness Summary Table Across Models (Yelp):''] \<and>
   map_option displayed_tables notebook_outputs = Some [recorded_movielens_display, yelp_frame] \<and>
   report_mentions ''Yelp'' \<and>
   \<not> report_mentions ''50'' \<and> \<not> report_mentions ''users'' \<and> \<not> report_mentions ''ample'' \<and>
   \<not> report_has_number 50"
proof (intro conjI)
  show "sublist ''Yelp'' yelp_subset_note"
    by (simp add: yelp_subset_note_def sublist_code(3))
  show "sublist ''subset of **50 users**'' yelp_subset_note"
    by (simp add: yelp_subset_note_def sublist_code(3))
  show "sublist ''sample size'' sample_size_limitation"
    by (simp add: sample_size_limitation_def sublist_code(3))
  show "sublist ''using only 50 users'' sample_size_limitation"
    by (simp add: sample_size_limitation_def sublist_code(3))
  show "notebook_outputs \<noteq> None"
    by (simp add: notebook_outputs_eq)
  show "map_option printed notebook_outputs =
     Some [CHR 0x0A # '' Fairness Table (Movielens):'',
           CHR 0x0A # ''Fairness Summary Table Across Models (Yelp):'']"
    by (rule printed_notebook)
  show "map_option displayed_tables notebook_outputs = Some [recorded_movielens_display, yelp_frame]"
    by (rule displayed_tables_notebook)
  show "report_mentions ''Yelp''"
    by (simp add: report_mentions_eq sublist_code(3))
  show "\<not> report_mentions ''50''" by (rule report_without_50)
  show "\<not> report_mentions ''users''" by (rule report_without_users)
  show "\<not> report_mentions ''ample''" by (rule report_without_sample)
  show "\<not> report_has_number 50" by (rule report_without_number_50)
qed

text \<open>
  Claim C7 as stated has the produced report record the sample size. The narrative says
  that the Yelp metrics come from a subset of 50 users; the output of the run shows the
  Yelp table and mentions 50 neither as text nor as a number.
\<close>

theorem report_lacks_sample_size_counterexample:
  "sublist ''subset of **50 users**'' yelp_subset_note \<and>
   notebook_outputs \<noteq> None \<and> report_mentions ''Yelp'' \<and>
   \<not> report_mentions ''50'' \<and> \<not> report_has_number 50"
proof -
  have "sublist ''subset of **50 users**'' yelp_subset_note"
    by (simp add: yelp_subset_note_def sublist_code(3))
  moreover have "notebook_outputs \<noteq> None"
    by (simp add: notebook_outputs_eq)
  moreover have "report_mentions ''Yelp''"
    by (simp add: report_mentions_eq sublist_code(3))
  ultimately show ?thesis
    using report_without_50 report_without_number_50 by blast
qed

text \<open>
  Claim C8. The function mapped over the MovieLens table returns \<^verbatim>\<open>"-"\<close> exactly for
  NaN; a number is rendered by the \<^verbatim>\<open>.4f\<close> format, whose result is always a string with
  four decimals, which \<^verbatim>\<open>"-"\<close> is not. So a cell of the formatted table is \<^verbatim>\<open>"-"\<close> if
  and only if the cell of the numeric table is NaN, and every other cell of the numeric
  table is a number shown with four decimals.
\<close>

theorem dash_iff_nan:
  "(display_fmt x = Inr (Str ''-'') \<longleftrightarrow> x = NaN) \<and>
   display_fmt (Num q) = Inr (Str (format_4f q)) \<and> is_4dp (format_4f q) \<and> \<not> is_4dp ''-'' \<and>
   (final_frame condensed_transposed = Some raw \<and> final_frame formatted_table = Some shown \<and>
    cell_at raw model i = Some c \<longrightarrow>
      (cell_at shown model i = Some (Str ''-'') \<longleftrightarrow> c = NaN) \<and>
      (c \<noteq> NaN \<longrightarrow> (\<exists>r. c = Num r \<and> cell_at shown model i = Some (Str (format_4f r)))))"
proof (intro conjI impI)
  show "display_fmt x = Inr (Str ''-'') \<longleftrightarrow> x = NaN" by (rule display_fmt_dash_iff)
  show "display_fmt (Num q) = Inr (Str (format_4f q))" by (rule display_fmt_Num)
  show "is_4dp (format_4f q)" by (rule is_4dp_format_4f)
  show "\<not> is_4dp ''-''" by (rule not_4dp_dash)
next
  assume a: "final_frame condensed_transposed = Some raw \<and> final_frame formatted_table = Some shown \<and>
    cell_at raw model i = Some c"
  then have "applymap display_fmt raw = Inr shown"
    by (simp add: final_condensed_transposed final_formatted_table applymap_movielens)
  from applymap_cell [OF this] a obtain c' where c': "display_fmt c = Inr c'"
    and sh: "cell_at shown model i = Some c'"
    by blast
  from c' sh show "cell_at shown model i = Some (Str ''-'') \<longleftrightarrow> c = NaN"
    using display_fmt_dash_iff [of c] by auto
  assume "c \<noteq> NaN"
  with c' sh show "\<exists>r. c = Num r \<and> cell_at shown model i = Some (Str (format_4f r))"
    by (cases c) (auto simp: display_fmt_Num display_fmt_Str)
qed

theorem dash_iff_nan_witness:
  "display_fmt NaN = Inr (Str ''-'') \<and>
   display_fmt (Num 0.0154) = Inr (Str ''0.0154'') \<and> is_4dp ''0.0154'' \<and>
   cell_at indexed_movielens ''ItemKNN'' 10 = Some (Num 0.0154) \<and>
   cell_at recorded_movielens_display ''ItemKNN'' 10 = Some (Str ''0.0154'') \<and>
   cell_at recorded_movielens_display ''ItemKNN'' 10 \<noteq> Some (Str ''-'')"
proof -
  have f: "format_4f 0.0154 = ''0.0154''"
    by (simp add: format_4f_def round_half_even_def frac4_def digit_char_def str_nat.simps Let_def)
  have h: "final_frame condensed_transposed = Some indexed_movielens \<and>
      final_frame formatted_table = Some recorded_movielens_display \<and>
      cell_at indexed_movielens ''ItemKNN'' 10 = Some (Num 0.0154)"
    by (simp add: final_condensed_transposed final_formatted_table cell_at_def
        indexed_movielens_def movielens_dict_def)
  note t = dash_iff_nan [of NaN "0.0154" indexed_movielens recorded_movielens_display
      "''ItemKNN''" 10 "Num 0.0154"]
  from t h have "\<exists>r. Num 0.0154 = Num r \<and>
      cell_at recorded_movielens_display ''ItemKNN'' 10 = Some (Str (format_4f r))"
    by blast
  then have shown: "cell_at recorded_movielens_display ''ItemKNN'' 10 = Some (Str (format_4f 0.0154))"
    by (metis cell.inject(1))
  from t h have "cell_at recorded_movielens_display ''ItemKNN'' 10 \<noteq> Some (Str ''-'')"
    by blast
  with t h shown show ?thesis unfolding f by blast
qed

text \<open>
  Claim C9. Building \<^verbatim>\<open>formatted_table\<close> from a copy leaves the numeric table alone: the
  statement allocates new objects only, so every object that existed before, the one
  behind \<^verbatim>\<open>condensed_transposed\<close> among them, holds the same frame afterwards, and the
  new table is a different object. In the notebook the frame behind
  \<^verbatim>\<open>condensed_transposed\<close> at the end of the cell is the one the constructor and
  \<^verbatim>\<open>set_index\<close> left there, with its numbers and its NaN cells.
\<close>

theorem formatting_leaves_numeric_table:
  "(build_formatted_table r s = Inr (ft, s') \<and> x < next_ref s \<longrightarrow>
      heap s' x = heap s x \<and> ft \<noteq> x \<and> outputs s' = outputs s) \<and>
   (\<exists>ct s2. build_condensed_transposed fresh_kernel = Inr (ct, s2) \<and> ct < next_ref s2 \<and>
      heap s2 ct = Some indexed_movielens \<and>
      final_frame condensed_transposed = heap s2 ct)"
proof (rule conjI)
  show "build_formatted_table r s = Inr (ft, s') \<and> x < next_ref s \<longrightarrow>
      heap s' x = heap s x \<and> ft \<noteq> x \<and> outputs s' = outputs s"
    using build_formatted_table_frame by blast
next
  show "\<exists>ct s2. build_condensed_transposed fresh_kernel = Inr (ct, s2) \<and> ct < next_ref s2 \<and>
      heap s2 ct = Some indexed_movielens \<and> final_frame condensed_transposed = heap s2 ct"
    by (simp add: build_condensed_transposed_fresh final_condensed_transposed)
qed

theorem formatting_leaves_numeric_table_witness:
  "build_formatted_table 0 \<lparr>heap = [0 \<mapsto> indexed_movielens], next_ref = Suc 0, outputs = []\<rparr> =
     Inr (Suc (Suc 0),
          \<lparr>heap = [0 \<mapsto> indexed_movielens, Suc 0 \<mapsto> indexed_movielens,
                   Suc (Suc 0) \<mapsto> recorded_movielens_display],
           next_ref = Suc (Suc (Suc 0)), outputs = []\<rparr>) \<and>
   0 < next_ref \<lparr>heap = [0 \<mapsto> indexed_movielens], next_ref = Suc 0, outputs = []\<rparr> \<and>
   heap \<lparr>heap = [0 \<mapsto> indexed_movielens, Suc 0 \<mapsto> indexed_movielens,
                   Suc (Suc 0) \<mapsto> recorded_movielens_display],
           next_ref = Suc (Suc (Suc 0)), outputs = []\<rparr> 0 = Some indexed_movielens"
  using formatting_leaves_numeric_table
    [of 0 "\<lparr>heap = [0 \<mapsto> indexed_movielens], next_ref = Suc 0, outputs = []\<rparr>" "Suc (Suc 0)"
      "\<lparr>heap = [0 \<mapsto> indexed_movielens, Suc 0 \<mapsto> indexed_movielens,
                   Suc (Suc 0) \<mapsto> recorded_movielens_display],
           next_ref = Suc (Suc (Suc 0)), outputs = []\<rparr>" 0]
  by (simp add: build_formatted_table_fresh)

text \<open>
  Claim C10. \<^verbatim>\<open>fairness_yelp.replace(np.nan, "-")\<close> returns the frame it was given: the
  constructed Yelp table has no NaN cell, every cell of a model column is a number or
  the string \<^verbatim>\<open>"-"\<close> already, and replacing NaN in a frame without NaN changes nothing.
\<close>

theorem replace_is_identity_on_yelp:
  "DataFrame yelp_dict = Inr yelp_frame \<and>
   replace NaN (Str ''-'') yelp_frame = yelp_frame \<and>
   final_frame fairness_yelp = Some yelp_frame \<and>
   no_nan yelp_frame \<and>
   (cell_at yelp_frame name i = Some c \<longrightarrow>
      c \<noteq> NaN \<and> (name \<in> set models \<longrightarrow> is_number c \<or> c = Str ''-'')) \<and>
   (no_nan df \<longrightarrow> replace NaN v df = df)"
proof (intro conjI impI)
  show "DataFrame yelp_dict = Inr yelp_frame" by (rule DataFrame_yelp)
  show "replace NaN (Str ''-'') yelp_frame = yelp_frame" by (rule replace_yelp)
  show "final_frame fairness_yelp = Some yelp_frame" by (rule final_fairness_yelp)
  show "no_nan yelp_frame" by (rule no_nan_yelp)
next
  assume c: "cell_at yelp_frame name i = Some c"
  from no_nan_yelp have "list_all (\<lambda>(k, v). list_all (\<lambda>c. \<not> isna c) v) (df_columns yelp_frame)"
    by (simp add: no_nan_def)
  from cell_at_list_all [OF this c] show "c \<noteq> NaN" by auto
  assume "name \<in> set models"
  with cell_at_list_all [OF yelp_model_cells c] show "is_number c \<or> c = Str ''-''" by simp
next
  assume "no_nan df"
  then show "replace NaN v df = df" by (rule replace_no_nan)
qed

theorem replace_is_identity_on_yelp_witness:
  "cell_at yelp_frame ''SVD++'' 8 = Some (Str ''-'') \<and> ''SVD++'' \<in> set models \<and>
   no_nan yelp_frame \<and> replace NaN (Num 0) yelp_frame = yelp_frame"
proof -
  have "cell_at yelp_frame ''SVD++'' 8 = Some (Str ''-'')"
    by (simp add: cell_at_def yelp_frame_def yelp_dict_def svdpp_def)
  moreover have "''SVD++'' \<in> set models" by (simp add: models_def)
  ultimately show ?thesis
    using replace_is_identity_on_yelp [of "''SVD++''" 8 "Str ''-''" yelp_frame "Num 0"]
    by blast
qed

end
